theory Spec2Isabelle
  imports Complex_Main "HOL-Library.Sublist"
begin

section \<open>Hunting Party backend: data model\<close>

text \<open>
  The embedding follows \<^verbatim>\<open>src/backend/api/main.py\<close>. A Python \<^verbatim>\<open>float\<close> is modelled by a
  \<^typ>\<open>real\<close> (infinities and NaN of IEEE doubles are outside the model; arithmetic is
  exact, except in the aggregation, whose sum and division are the runtime's floating-point
  operations and are parameters of the model), a Python \<^verbatim>\<open>int\<close> by an \<^typ>\<open>int\<close>, \<^verbatim>\<open>Optional[t]\<close> by \<^typ>\<open>'a option\<close> with
  \<^term>\<open>None\<close> for Python's \<^verbatim>\<open>None\<close>, a dataclass by a record.

  Record fields are global names in HOL, so a field name that several dataclasses share keeps
  its plain name in \<^verbatim>\<open>CompProperty\<close> and gets a prefix elsewhere: \<^verbatim>\<open>summary_\<close> in
  \<^verbatim>\<open>PropertySummary\<close>, \<^verbatim>\<open>fin_\<close> in \<^verbatim>\<open>FinancialMetrics\<close>, \<^verbatim>\<open>filter_\<close> for the
  \<^verbatim>\<open>distance_miles\<close> bound of \<^verbatim>\<open>CompFilterRequest\<close>, \<^verbatim>\<open>om_\<close> for the keys of the
  \<^verbatim>\<open>om_metrics\<close> dictionary.

  The address of a \<^verbatim>\<open>PropertySummary\<close> is the value of \<^verbatim>\<open>row.get('address', '')\<close> when
  the record is parsed, which is \<^verbatim>\<open>None\<close> for a header column without a cell: the field
  holds an optional string.
\<close>

record PropertySummary =
  summary_address :: "string option"
  opportunity_zone :: bool
  summary_cap_rate :: real
  rentable_sqft :: int
  avg_sqft_per_unit :: real
  asking_price :: real
  lot_size_acres :: real
  total_units :: int

record UnitRentData =
  one_bed :: "real option"
  two_bed :: "real option"
  three_bed :: "real option"
  four_bed :: "real option"

record FinancialMetrics =
  fin_noi :: real
  fin_cap_rate :: real
  fin_price_per_sqft :: real
  fin_price_per_unit :: real
  fin_price_per_acre :: real

record VacancyEGIData =
  vacancy_rate :: real
  gross_potential_rent :: real
  effective_gross_income :: real

record CompProperty =
  source :: string
  address :: string
  price :: "real option"
  units :: "int option"
  cap_rate :: "real option"
  price_per_unit :: "real option"
  price_per_sqft :: "real option"
  price_per_acre :: "real option"
  noi :: "real option"
  distance_miles :: "real option"
  unit_rents :: "UnitRentData option"

record CompStats =
  total_scraped :: nat
  filtered_count :: nat
  avg_price :: real
  avg_units :: real
  avg_cap_rate :: "real option"
  avg_price_per_unit :: real
  avg_price_per_sqft :: real
  avg_price_per_acre :: "real option"
  avg_noi :: "real option"
  avg_unit_rents :: "UnitRentData option"

record ComparisonResult =
  metric_name :: string
  om_value :: "real option"
  market_value :: "real option"
  deviation_percent :: "real option"
  deviation_comment :: string

record CompFilterRequest =
  price_min :: "real option"
  price_max :: "real option"
  units_min :: "int option"
  units_max :: "int option"
  filter_distance_miles :: "real option"
  cap_rate_min :: "real option"
  cap_rate_max :: "real option"
  price_per_unit_min :: "real option"
  price_per_unit_max :: "real option"
  price_per_sqft_min :: "real option"
  price_per_sqft_max :: "real option"
  price_per_acre_min :: "real option"
  price_per_acre_max :: "real option"

section \<open>Filtering: \<^verbatim>\<open>apply_filters\<close>\<close>

text \<open>
  Each test of the loop body has the shape \<^verbatim>\<open>bound and field and field < bound\<close> (or
  \<^verbatim>\<open>>\<close>). Python's \<^verbatim>\<open>and\<close> tests truthiness: \<^verbatim>\<open>None\<close> and the number \<^verbatim>\<open>0\<close> are both
  false, so the comparison is only reached when bound and field are present and non-zero.
\<close>

definition below_min :: "('a::{zero,linorder}) option \<Rightarrow> 'a option \<Rightarrow> bool" where
  "below_min bound field =
     (case bound of None \<Rightarrow> False
      | Some lo \<Rightarrow> lo \<noteq> 0 \<and>
          (case field of None \<Rightarrow> False | Some v \<Rightarrow> v \<noteq> 0 \<and> v < lo))"

definition above_max :: "('a::{zero,linorder}) option \<Rightarrow> 'a option \<Rightarrow> bool" where
  "above_max bound field =
     (case bound of None \<Rightarrow> False
      | Some hi \<Rightarrow> hi \<noteq> 0 \<and>
          (case field of None \<Rightarrow> False | Some v \<Rightarrow> v \<noteq> 0 \<and> v > hi))"

text \<open>The chain of \<^verbatim>\<open>if ...: continue\<close> statements: \<^term>\<open>True\<close> when one of them fires.\<close>

definition skipped :: "CompFilterRequest \<Rightarrow> CompProperty \<Rightarrow> bool" where
  "skipped filters c =
     (if below_min (price_min filters) (price c) then True
      else if above_max (price_max filters) (price c) then True
      else if below_min (units_min filters) (units c) then True
      else if above_max (units_max filters) (units c) then True
      else if above_max (filter_distance_miles filters) (distance_miles c) then True
      else if below_min (cap_rate_min filters) (cap_rate c) then True
      else if above_max (cap_rate_max filters) (cap_rate c) then True
      else if below_min (price_per_unit_min filters) (price_per_unit c) then True
      else if above_max (price_per_unit_max filters) (price_per_unit c) then True
      else if below_min (price_per_sqft_min filters) (price_per_sqft c) then True
      else if above_max (price_per_sqft_max filters) (price_per_sqft c) then True
      else if below_min (price_per_acre_min filters) (price_per_acre c) then True
      else if above_max (price_per_acre_max filters) (price_per_acre c) then True
      else False)"

text \<open>The \<^verbatim>\<open>for\<close> loop, with the list \<^verbatim>\<open>filtered_comps\<close> it appends to as accumulator.\<close>

fun apply_filters_loop ::
  "CompProperty list \<Rightarrow> CompFilterRequest \<Rightarrow> CompProperty list \<Rightarrow> CompProperty list" where
  "apply_filters_loop [] filters filtered_comps = filtered_comps"
| "apply_filters_loop (c # comps) filters filtered_comps =
     (if skipped filters c then apply_filters_loop comps filters filtered_comps
      else apply_filters_loop comps filters (filtered_comps @ [c]))"

definition apply_filters :: "CompProperty list \<Rightarrow> CompFilterRequest \<Rightarrow> CompProperty list" where
  "apply_filters comps filters = apply_filters_loop comps filters []"

text \<open>The request in which no bound is set (every field \<^verbatim>\<open>None\<close>, the pydantic default).\<close>

definition no_filters :: CompFilterRequest where
  "no_filters =
     \<lparr>price_min = None, price_max = None, units_min = None, units_max = None,
      filter_distance_miles = None, cap_rate_min = None, cap_rate_max = None,
      price_per_unit_min = None, price_per_unit_max = None,
      price_per_sqft_min = None, price_per_sqft_max = None,
      price_per_acre_min = None, price_per_acre_max = None\<rparr>"

subsection \<open>The filtering contract in the specification's words\<close>

text \<open>
  A bound that is set (not \<^verbatim>\<open>None\<close>) is respected by a comparable that lacks the field or
  satisfies the bound.
\<close>

definition spec_min_ok :: "('a::linorder) option \<Rightarrow> 'a option \<Rightarrow> bool" where
  "spec_min_ok bound field =
     (case bound of None \<Rightarrow> True
      | Some lo \<Rightarrow> (case field of None \<Rightarrow> True | Some v \<Rightarrow> lo \<le> v))"

definition spec_max_ok :: "('a::linorder) option \<Rightarrow> 'a option \<Rightarrow> bool" where
  "spec_max_ok bound field =
     (case bound of None \<Rightarrow> True
      | Some hi \<Rightarrow> (case field of None \<Rightarrow> True | Some v \<Rightarrow> v \<le> hi))"

definition spec_keeps :: "CompFilterRequest \<Rightarrow> CompProperty \<Rightarrow> bool" where
  "spec_keeps filters c \<longleftrightarrow>
     spec_min_ok (price_min filters) (price c) \<and>
     spec_max_ok (price_max filters) (price c) \<and>
     spec_min_ok (units_min filters) (units c) \<and>
     spec_max_ok (units_max filters) (units c) \<and>
     spec_max_ok (filter_distance_miles filters) (distance_miles c) \<and>
     spec_min_ok (cap_rate_min filters) (cap_rate c) \<and>
     spec_max_ok (cap_rate_max filters) (cap_rate c) \<and>
     spec_min_ok (price_per_unit_min filters) (price_per_unit c) \<and>
     spec_max_ok (price_per_unit_max filters) (price_per_unit c) \<and>
     spec_min_ok (price_per_sqft_min filters) (price_per_sqft c) \<and>
     spec_max_ok (price_per_sqft_max filters) (price_per_sqft c) \<and>
     spec_min_ok (price_per_acre_min filters) (price_per_acre c) \<and>
     spec_max_ok (price_per_acre_max filters) (price_per_acre c)"

text \<open>
  The contract the code implements: a bound constrains only when it is set to a non-zero
  value, and then only a comparable whose field is present and non-zero.
\<close>

definition min_ok :: "('a::{zero,linorder}) option \<Rightarrow> 'a option \<Rightarrow> bool" where
  "min_ok bound field =
     (case bound of None \<Rightarrow> True
      | Some lo \<Rightarrow> lo = 0 \<or> (case field of None \<Rightarrow> True | Some v \<Rightarrow> v = 0 \<or> lo \<le> v))"

definition max_ok :: "('a::{zero,linorder}) option \<Rightarrow> 'a option \<Rightarrow> bool" where
  "max_ok bound field =
     (case bound of None \<Rightarrow> True
      | Some hi \<Rightarrow> hi = 0 \<or> (case field of None \<Rightarrow> True | Some v \<Rightarrow> v = 0 \<or> v \<le> hi))"

definition keeps :: "CompFilterRequest \<Rightarrow> CompProperty \<Rightarrow> bool" where
  "keeps filters c \<longleftrightarrow>
     min_ok (price_min filters) (price c) \<and>
     max_ok (price_max filters) (price c) \<and>
     min_ok (units_min filters) (units c) \<and>
     max_ok (units_max filters) (units c) \<and>
     max_ok (filter_distance_miles filters) (distance_miles c) \<and>
     min_ok (cap_rate_min filters) (cap_rate c) \<and>
     max_ok (cap_rate_max filters) (cap_rate c) \<and>
     min_ok (price_per_unit_min filters) (price_per_unit c) \<and>
     max_ok (price_per_unit_max filters) (price_per_unit c) \<and>
     min_ok (price_per_sqft_min filters) (price_per_sqft c) \<and>
     max_ok (price_per_sqft_max filters) (price_per_sqft c) \<and>
     min_ok (price_per_acre_min filters) (price_per_acre c) \<and>
     max_ok (price_per_acre_max filters) (price_per_acre c)"

text \<open>Two comparables and a request used as concrete inputs below.\<close>

definition rent_only_comp :: CompProperty where
  "rent_only_comp =
     \<lparr>source = ''realtor'', address = ''654 Maple St, Tampa, FL'',
      price = None, units = None, cap_rate = None, price_per_unit = None,
      price_per_sqft = None, price_per_acre = None, noi = None,
      distance_miles = Some (9 / 10),
      unit_rents = Some \<lparr>one_bed = Some 1525, two_bed = Some 1943,
                         three_bed = Some 2263, four_bed = Some 2538\<rparr>\<rparr>"

definition oak_comp :: CompProperty where
  "oak_comp =
     \<lparr>source = ''crexi'', address = ''456 Oak St, Tampa, FL'',
      price = Some 33500000, units = Some 115, cap_rate = Some (11 / 2),
      price_per_unit = Some 291304, price_per_sqft = Some 312,
      price_per_acre = Some 18200000, noi = Some 1842500,
      distance_miles = Some (8 / 10), unit_rents = None\<rparr>"

definition zero_price_comp :: CompProperty where
  "zero_price_comp = oak_comp\<lparr>price := Some 0\<rparr>"

definition price_floor_filter :: CompFilterRequest where
  "price_floor_filter = no_filters\<lparr>price_min := Some 100\<rparr>"

section \<open>Built-in data\<close>

definition get_mock_crexi_comps :: "CompProperty list" where
  "get_mock_crexi_comps =
     [oak_comp,
      \<lparr>source = ''crexi'', address = ''789 Pine Ave, Tampa, FL'',
       price = Some 32000000, units = Some 108, cap_rate = Some (53 / 10),
       price_per_unit = Some 296296, price_per_sqft = Some 318,
       price_per_acre = Some 19000000, noi = Some 1696000,
       distance_miles = Some (12 / 10), unit_rents = None\<rparr>,
      \<lparr>source = ''crexi'', address = ''321 Elm Dr, Tampa, FL'',
       price = Some 35500000, units = Some 125, cap_rate = Some (54 / 10),
       price_per_unit = Some 284000, price_per_sqft = Some 309,
       price_per_acre = Some 18800000, noi = Some 1917000,
       distance_miles = Some (5 / 10), unit_rents = None\<rparr>]"

definition get_mock_realtor_comps :: "CompProperty list" where
  "get_mock_realtor_comps =
     [rent_only_comp,
      \<lparr>source = ''realtor'', address = ''987 Cedar Rd, Tampa, FL'',
       price = None, units = None, cap_rate = None, price_per_unit = None,
       price_per_sqft = None, price_per_acre = None, noi = None,
       distance_miles = Some (11 / 10),
       unit_rents = Some \<lparr>one_bed = Some 1580, two_bed = Some 1980,
                          three_bed = Some 2320, four_bed = Some 2580\<rparr>\<rparr>,
      \<lparr>source = ''realtor'', address = ''147 Birch Ln, Tampa, FL'',
       price = None, units = None, cap_rate = None, price_per_unit = None,
       price_per_sqft = None, price_per_acre = None, noi = None,
       distance_miles = Some (7 / 10),
       unit_rents = Some \<lparr>one_bed = Some 1480, two_bed = Some 1920,
                          three_bed = Some 2240, four_bed = Some 2520\<rparr>\<rparr>]"

section \<open>Aggregation: \<^verbatim>\<open>calculate_comp_stats\<close>\<close>

text \<open>
  \<^verbatim>\<open>[c.price for c in comps if c.price is not None]\<close> is the list comprehension below.
  In \<^verbatim>\<open>sum(xs) / len(xs) if xs else d\<close> the sum and the division are floating-point
  operations of the Python runtime, and parameters of the model: \<^term>\<open>float_sum\<close> stands
  for the built-in \<^verbatim>\<open>sum\<close> on the list (on floats CPython adds from left to right, each
  addition rounded; from version 3.12 on it also compensates the rounding errors), and
  \<^term>\<open>true_div\<close> for \<^verbatim>\<open>/\<close>, which rounds the quotient. Both are meant on finite numbers
  with a finite result. The units are integers, which \<^verbatim>\<open>sum\<close> adds exactly. The division is
  reached only for a non-empty list, so it cannot raise.
\<close>

definition calculate_comp_stats ::
  "(real list \<Rightarrow> real) \<Rightarrow> (real \<Rightarrow> real \<Rightarrow> real) \<Rightarrow> CompProperty list \<Rightarrow> CompStats" where
  "calculate_comp_stats float_sum true_div comps =
     (if comps = [] then
        \<lparr>total_scraped = 0, filtered_count = 0, avg_price = 0, avg_units = 0,
         avg_cap_rate = None, avg_price_per_unit = 0, avg_price_per_sqft = 0,
         avg_price_per_acre = None, avg_noi = None, avg_unit_rents = None\<rparr>
      else
        let prices = [the (price c). c \<leftarrow> comps, price c \<noteq> None];
            unitss = [the (units c). c \<leftarrow> comps, units c \<noteq> None];
            cap_rates = [the (cap_rate c). c \<leftarrow> comps, cap_rate c \<noteq> None];
            price_per_units = [the (price_per_unit c). c \<leftarrow> comps, price_per_unit c \<noteq> None];
            price_per_sqfts = [the (price_per_sqft c). c \<leftarrow> comps, price_per_sqft c \<noteq> None];
            price_per_acres = [the (price_per_acre c). c \<leftarrow> comps, price_per_acre c \<noteq> None];
            nois = [the (noi c). c \<leftarrow> comps, noi c \<noteq> None];
            unit_rentss = [the (unit_rents c). c \<leftarrow> comps, unit_rents c \<noteq> None];
            avg_unit_rents =
              (if unit_rentss \<noteq> [] then
                 let one_beds = [the (one_bed u). u \<leftarrow> unit_rentss, one_bed u \<noteq> None];
                     two_beds = [the (two_bed u). u \<leftarrow> unit_rentss, two_bed u \<noteq> None];
                     three_beds = [the (three_bed u). u \<leftarrow> unit_rentss, three_bed u \<noteq> None];
                     four_beds = [the (four_bed u). u \<leftarrow> unit_rentss, four_bed u \<noteq> None]
                 in Some
                   \<lparr>one_bed = (if one_beds \<noteq> [] then Some (true_div (float_sum one_beds) (real (length one_beds))) else None),
                    two_bed = (if two_beds \<noteq> [] then Some (true_div (float_sum two_beds) (real (length two_beds))) else None),
                    three_bed = (if three_beds \<noteq> [] then Some (true_div (float_sum three_beds) (real (length three_beds))) else None),
                    four_bed = (if four_beds \<noteq> [] then Some (true_div (float_sum four_beds) (real (length four_beds))) else None)\<rparr>
               else None)
        in
        \<lparr>total_scraped = length comps,
         filtered_count = length comps,
         avg_price = (if prices \<noteq> [] then true_div (float_sum prices) (real (length prices)) else 0),
         avg_units = (if unitss \<noteq> [] then true_div (real_of_int (sum_list unitss)) (real (length unitss)) else 0),
         avg_cap_rate = (if cap_rates \<noteq> [] then Some (true_div (float_sum cap_rates) (real (length cap_rates))) else None),
         avg_price_per_unit =
           (if price_per_units \<noteq> [] then true_div (float_sum price_per_units) (real (length price_per_units)) else 0),
         avg_price_per_sqft =
           (if price_per_sqfts \<noteq> [] then true_div (float_sum price_per_sqfts) (real (length price_per_sqfts)) else 0),
         avg_price_per_acre =
           (if price_per_acres \<noteq> [] then Some (true_div (float_sum price_per_acres) (real (length price_per_acres)))
            else None),
         avg_noi = (if nois \<noteq> [] then Some (true_div (float_sum nois) (real (length nois))) else None),
         avg_unit_rents = avg_unit_rents\<rparr>)"

subsection \<open>The aggregation contract in the specification's words\<close>

text \<open>
  The reporting subset of a field: the elements in which the field is present (a reported
  0 counts), and the values they report. The average of a list of values as the runtime
  computes it, and their exact arithmetic mean. The average of a field: undefined when its
  reporting subset is empty.
\<close>

definition reporting :: "('c \<Rightarrow> 'a option) \<Rightarrow> 'c list \<Rightarrow> 'c list" where
  "reporting field xs = filter (\<lambda>x. field x \<noteq> None) xs"

definition reported_values :: "('c \<Rightarrow> 'a option) \<Rightarrow> 'c list \<Rightarrow> 'a list" where
  "reported_values field xs = map (\<lambda>x. the (field x)) (reporting field xs)"

definition float_mean :: "(real list \<Rightarrow> real) \<Rightarrow> (real \<Rightarrow> real \<Rightarrow> real) \<Rightarrow> real list \<Rightarrow> real" where
  "float_mean float_sum true_div vs = true_div (float_sum vs) (real (length vs))"

definition arithmetic_mean :: "real list \<Rightarrow> real" where
  "arithmetic_mean vs = sum_list vs / real (length vs)"

definition units_mean :: "(real \<Rightarrow> real \<Rightarrow> real) \<Rightarrow> int list \<Rightarrow> real" where
  "units_mean true_div ns = true_div (real_of_int (sum_list ns)) (real (length ns))"

definition spec_average ::
  "(real list \<Rightarrow> real) \<Rightarrow> (real \<Rightarrow> real \<Rightarrow> real) \<Rightarrow> ('c \<Rightarrow> real option) \<Rightarrow> 'c list \<Rightarrow> real option" where
  "spec_average float_sum true_div field xs =
     (if reporting field xs = [] then None
      else Some (float_mean float_sum true_div (reported_values field xs)))"

definition reported_rents :: "CompProperty list \<Rightarrow> UnitRentData list" where
  "reported_rents xs = reported_values unit_rents xs"

section \<open>Exceptions\<close>

text \<open>
  The exceptions the modelled code can raise. \<^verbatim>\<open>HTTPException(status_code, detail)\<close> carries
  its status code; its detail is an f-string built from a fixed prefix and \<^verbatim>\<open>str(e)\<close> of the
  exception caught, kept here as the prefix's constructor applied to that exception.
\<close>

datatype exn =
    StopIteration | CsvError | ValueError | TypeError | AttributeError
  | ZeroDivisionError | UnicodeDecodeError
  | HTTPException nat detail
and detail = ErrorParsingCSV exn | AnalysisFailed exn

definition bind_exn :: "exn + 'a \<Rightarrow> ('a \<Rightarrow> exn + 'b) \<Rightarrow> exn + 'b" where
  "bind_exn m f = (case m of Inl e \<Rightarrow> Inl e | Inr x \<Rightarrow> f x)"

definition py_truediv :: "real \<Rightarrow> real \<Rightarrow> exn + real" where
  "py_truediv a b = (if b = 0 then Inl ZeroDivisionError else Inr (a / b))"

text \<open>Truthiness of an optional number: \<^verbatim>\<open>None\<close> and 0 are false.\<close>

definition truthy :: "('a::zero) option \<Rightarrow> bool" where
  "truthy x = (case x of None \<Rightarrow> False | Some v \<Rightarrow> v \<noteq> 0)"

section \<open>Number formatting: the format specification \<^verbatim>\<open>.1f\<close>\<close>

definition digit_char :: "nat \<Rightarrow> char" where
  "digit_char d = ''0123456789'' ! d"

fun str_nat :: "nat \<Rightarrow> string" where
  "str_nat n = (if n < 10 then [digit_char n] else str_nat (n div 10) @ [digit_char (n mod 10)])"

declare str_nat.simps [simp del]

text \<open>Rounding to the nearest integer, ties to the even one.\<close>

definition round_half_even :: "real \<Rightarrow> int" where
  "round_half_even x =
     (let f = \<lfloor>x\<rfloor>; d = x - of_int f
      in if d < 1 / 2 then f else if d > 1 / 2 then f + 1 else if even f then f else f + 1)"

text \<open>
  \<^verbatim>\<open>f"{x:.1f}"\<close>: the sign of \<^verbatim>\<open>x\<close> (a negative number that rounds to zero prints as
  \<^verbatim>\<open>-0.0\<close>), the integer digits, a point and one decimal digit.
\<close>

definition format_1f :: "real \<Rightarrow> string" where
  "format_1f x =
     (let t = nat (round_half_even (\<bar>x\<bar> * 10))
      in (if x < 0 then ''-'' else []) @ str_nat (t div 10) @ ''.'' @ [digit_char (t mod 10)])"

text \<open>\<^verbatim>\<open>'+' if deviation > 0 else ''\<close>\<close>

definition sign_prefix :: "real \<Rightarrow> string" where
  "sign_prefix deviation = (if deviation > 0 then ''+'' else [])"

section \<open>IEEE doubles: rounding to nearest\<close>

text \<open>
  The operations of CPython on finite doubles, for evaluating the aggregation on concrete
  inputs: a double operation returns the exact result rounded to the nearest number with a
  53-bit significand, ties to the even one. \<^term>\<open>binary_exponent x\<close> is the \<open>e\<close> with
  \<open>2^e \<le> \<bar>x\<bar> < 2^(e+1)\<close>; below \<open>2^-1022\<close> the spacing of the doubles stays \<open>2^-1074\<close>.
  A result beyond the largest double is \<^verbatim>\<open>inf\<close> in Python and outside the model.
\<close>

fun bit_length :: "nat \<Rightarrow> nat" where
  "bit_length n = (if n = 0 then 0 else Suc (bit_length (n div 2)))"

declare bit_length.simps [simp del]

definition binary_exponent :: "real \<Rightarrow> int" where
  "binary_exponent x =
     (if \<bar>x\<bar> \<ge> 1 then int (bit_length (nat \<lfloor>\<bar>x\<bar>\<rfloor>)) - 1
      else - int (bit_length (nat (\<lceil>1 / \<bar>x\<bar>\<rceil> - 1))))"

definition pow2 :: "int \<Rightarrow> real" where
  "pow2 e = (if e \<ge> 0 then 2 ^ nat e else 1 / 2 ^ nat (- e))"

definition round_double :: "real \<Rightarrow> real" where
  "round_double x =
     (if x = 0 then 0
      else let q = pow2 (max (binary_exponent x) (- 1022) - 52)
           in real_of_int (round_half_even (x / q)) * q)"

text \<open>
  \<^verbatim>\<open>a + b\<close> and \<^verbatim>\<open>a / b\<close> on doubles, and the built-in \<^verbatim>\<open>sum\<close> of CPython up to version
  3.11, which starts from 0 and adds the elements from left to right.
\<close>

definition double_add :: "real \<Rightarrow> real \<Rightarrow> real" where
  "double_add a b = round_double (a + b)"

definition double_sum :: "real list \<Rightarrow> real" where
  "double_sum xs = foldl double_add 0 xs"

definition double_div :: "real \<Rightarrow> real \<Rightarrow> real" where
  "double_div a b = round_double (a / b)"

section \<open>Comparison: \<^verbatim>\<open>calculate_comparisons\<close>\<close>

text \<open>
  The dictionary \<^verbatim>\<open>om_metrics\<close> that \<^verbatim>\<open>analyze_om\<close> builds and passes as \<^verbatim>\<open>om_data\<close>: three
  floats of \<^verbatim>\<open>FinancialMetrics\<close> and the \<^verbatim>\<open>asdict\<close> of the subject's \<^verbatim>\<open>UnitRentData\<close>.
\<close>

record om_metrics =
  om_price_per_unit :: real
  om_price_per_sqft :: real
  om_cap_rate :: real
  om_unit_rents :: UnitRentData

text \<open>
  The body shared by the four ratio blocks, which differ in the metric's name, the two
  values and the comment's suffix:
  \<^verbatim>\<open>deviation = ((subject - market) / market) * 100\<close>, then the \<^verbatim>\<open>ComparisonResult\<close>.
\<close>

definition ratio_result :: "string \<Rightarrow> string \<Rightarrow> real \<Rightarrow> real \<Rightarrow> exn + ComparisonResult" where
  "ratio_result name ending subject market =
     bind_exn (py_truediv (subject - market) market) (\<lambda>q.
       let deviation = q * 100 in
       Inr \<lparr>metric_name = name, om_value = Some subject, market_value = Some market,
            deviation_percent = Some deviation,
            deviation_comment = sign_prefix deviation @ format_1f deviation @ ending\<rparr>)"

definition price_per_unit_block ::
  "om_metrics \<Rightarrow> CompStats \<Rightarrow> ComparisonResult list \<Rightarrow> exn + ComparisonResult list" where
  "price_per_unit_block om_data crexi_stats comparisons =
     (if avg_price_per_unit crexi_stats > 0 then
        bind_exn (ratio_result ''Price per Unit'' ''% vs CREXi market''
                    (om_price_per_unit om_data) (avg_price_per_unit crexi_stats))
          (\<lambda>r. Inr (comparisons @ [r]))
      else Inr comparisons)"

definition price_per_sqft_block ::
  "om_metrics \<Rightarrow> CompStats \<Rightarrow> ComparisonResult list \<Rightarrow> exn + ComparisonResult list" where
  "price_per_sqft_block om_data crexi_stats comparisons =
     (if avg_price_per_sqft crexi_stats > 0 then
        bind_exn (ratio_result ''Price per SqFt'' ''% vs CREXi market''
                    (om_price_per_sqft om_data) (avg_price_per_sqft crexi_stats))
          (\<lambda>r. Inr (comparisons @ [r]))
      else Inr comparisons)"

definition cap_rate_block ::
  "om_metrics \<Rightarrow> CompStats \<Rightarrow> ComparisonResult list \<Rightarrow> exn + ComparisonResult list" where
  "cap_rate_block om_data crexi_stats comparisons =
     (if truthy (avg_cap_rate crexi_stats) \<and> om_cap_rate om_data \<noteq> 0 then
        let deviation = om_cap_rate om_data - the (avg_cap_rate crexi_stats) in
        Inr (comparisons @
          [\<lparr>metric_name = ''Cap Rate'', om_value = Some (om_cap_rate om_data),
            market_value = avg_cap_rate crexi_stats,
            deviation_percent = Some deviation,
            deviation_comment =
              sign_prefix deviation @ format_1f deviation @ ''pp vs CREXi market''\<rparr>])
      else Inr comparisons)"

definition one_bed_block ::
  "om_metrics \<Rightarrow> UnitRentData \<Rightarrow> ComparisonResult list \<Rightarrow> exn + ComparisonResult list" where
  "one_bed_block om_data market_rents comparisons =
     (if truthy (one_bed (om_unit_rents om_data)) \<and> truthy (one_bed market_rents) then
        bind_exn (ratio_result ''1BR Rent'' ''% vs Realtor market''
                    (the (one_bed (om_unit_rents om_data))) (the (one_bed market_rents)))
          (\<lambda>r. Inr (comparisons @ [r]))
      else Inr comparisons)"

definition two_bed_block ::
  "om_metrics \<Rightarrow> UnitRentData \<Rightarrow> ComparisonResult list \<Rightarrow> exn + ComparisonResult list" where
  "two_bed_block om_data market_rents comparisons =
     (if truthy (two_bed (om_unit_rents om_data)) \<and> truthy (two_bed market_rents) then
        bind_exn (ratio_result ''2BR Rent'' ''% vs Realtor market''
                    (the (two_bed (om_unit_rents om_data))) (the (two_bed market_rents)))
          (\<lambda>r. Inr (comparisons @ [r]))
      else Inr comparisons)"

text \<open>
  \<^verbatim>\<open>if realtor_stats.avg_unit_rents:\<close> tests an optional dataclass instance, which is true
  exactly when it is not \<^verbatim>\<open>None\<close>.
\<close>

definition unit_rent_blocks ::
  "om_metrics \<Rightarrow> CompStats \<Rightarrow> ComparisonResult list \<Rightarrow> exn + ComparisonResult list" where
  "unit_rent_blocks om_data realtor_stats comparisons =
     (case avg_unit_rents realtor_stats of
        None \<Rightarrow> Inr comparisons
      | Some market_rents \<Rightarrow>
          bind_exn (one_bed_block om_data market_rents comparisons)
            (two_bed_block om_data market_rents))"

definition calculate_comparisons ::
  "om_metrics \<Rightarrow> CompStats \<Rightarrow> CompStats \<Rightarrow> exn + ComparisonResult list" where
  "calculate_comparisons om_data crexi_stats realtor_stats =
     bind_exn (price_per_unit_block om_data crexi_stats []) (\<lambda>comparisons.
     bind_exn (price_per_sqft_block om_data crexi_stats comparisons) (\<lambda>comparisons.
     bind_exn (cap_rate_block om_data crexi_stats comparisons) (\<lambda>comparisons.
     unit_rent_blocks om_data realtor_stats comparisons)))"

text \<open>The comparison set of the specification, in its evaluation order.\<close>

definition fixed_metrics :: "string list" where
  "fixed_metrics = [''Price per Unit'', ''Price per SqFt'', ''Cap Rate'', ''1BR Rent'', ''2BR Rent'']"

text \<open>
  The guard under which the block of a metric appends its result: the conditions of the
  \<^verbatim>\<open>if\<close> statements around the five blocks. No other name has a block.
\<close>

definition emission_guard :: "string \<Rightarrow> om_metrics \<Rightarrow> CompStats \<Rightarrow> CompStats \<Rightarrow> bool" where
  "emission_guard name om_data crexi_stats realtor_stats =
     (if name = ''Price per Unit'' then avg_price_per_unit crexi_stats > 0
      else if name = ''Price per SqFt'' then avg_price_per_sqft crexi_stats > 0
      else if name = ''Cap Rate'' then truthy (avg_cap_rate crexi_stats) \<and> om_cap_rate om_data \<noteq> 0
      else if name = ''1BR Rent'' then
        (case avg_unit_rents realtor_stats of
           None \<Rightarrow> False
         | Some market_rents \<Rightarrow>
             truthy (one_bed (om_unit_rents om_data)) \<and> truthy (one_bed market_rents))
      else if name = ''2BR Rent'' then
        (case avg_unit_rents realtor_stats of
           None \<Rightarrow> False
         | Some market_rents \<Rightarrow>
             truthy (two_bed (om_unit_rents om_data)) \<and> truthy (two_bed market_rents))
      else False)"

section \<open>Input normalizer: \<^verbatim>\<open>parse_csv_om_data\<close> and \<^verbatim>\<open>get_mock_om_data\<close>\<close>

text \<open>
  A row of \<^verbatim>\<open>csv.DictReader\<close> is a dictionary from column names to strings; a column of the
  header for which the row has no cell is mapped to \<^verbatim>\<open>None\<close>. So looking a key up gives
  nothing (the key is absent), \<^verbatim>\<open>None\<close>, or a string. \<^verbatim>\<open>row.get(key, default)\<close> returns the
  default only for an absent key; the defaults of the code are the integer \<^verbatim>\<open>0\<close>, the string
  \<^verbatim>\<open>''\<close> and (with no second argument) \<^verbatim>\<open>None\<close>.
\<close>

type_synonym csv_row = "string \<rightharpoonup> string option"

datatype pyval = PyNone | PyStr string | PyInt int

definition row_get :: "csv_row \<Rightarrow> string \<Rightarrow> pyval \<Rightarrow> pyval" where
  "row_get row key fallback =
     (case row key of None \<Rightarrow> fallback | Some None \<Rightarrow> PyNone | Some (Some s) \<Rightarrow> PyStr s)"

text \<open>
  \<^verbatim>\<open>float(v)\<close>. The conversion of a string is Python's own and is a parameter of the model:
  \<^term>\<open>None\<close> stands for the \<^verbatim>\<open>ValueError\<close> of a string that is no number.
\<close>

fun py_float :: "(string \<Rightarrow> real option) \<Rightarrow> pyval \<Rightarrow> exn + real" where
  "py_float str_to_float PyNone = Inl TypeError"
| "py_float str_to_float (PyInt i) = Inr (real_of_int i)"
| "py_float str_to_float (PyStr s) =
     (case str_to_float s of None \<Rightarrow> Inl ValueError | Some x \<Rightarrow> Inr x)"

fun py_truth :: "pyval \<Rightarrow> bool" where
  "py_truth PyNone = False"
| "py_truth (PyStr s) = (s \<noteq> [])"
| "py_truth (PyInt i) = (i \<noteq> 0)"

text \<open>\<^verbatim>\<open>int(x)\<close> of a float truncates towards zero.\<close>

definition py_int :: "real \<Rightarrow> int" where
  "py_int x = (if x \<ge> 0 then \<lfloor>x\<rfloor> else \<lceil>x\<rceil>)"

definition lower_char :: "char \<Rightarrow> char" where
  "lower_char c =
     (if 65 \<le> (of_char c :: nat) \<and> (of_char c :: nat) \<le> 90 then char_of ((of_char c :: nat) + 32)
      else c)"

text \<open>
  \<^verbatim>\<open>v.lower()\<close>, on the letters of ASCII (the result is only compared with \<^verbatim>\<open>'yes'\<close>);
  \<^verbatim>\<open>None\<close> has no such method.
\<close>

fun py_lower :: "pyval \<Rightarrow> exn + string" where
  "py_lower (PyStr s) = Inr (map lower_char s)"
| "py_lower PyNone = Inl AttributeError"
| "py_lower (PyInt i) = Inl AttributeError"

text \<open>\<^verbatim>\<open>float(row.get(key, 0))\<close>\<close>

definition float_field :: "(string \<Rightarrow> real option) \<Rightarrow> csv_row \<Rightarrow> string \<Rightarrow> exn + real" where
  "float_field str_to_float row key = py_float str_to_float (row_get row key (PyInt 0))"

text \<open>\<^verbatim>\<open>float(row.get(key, 0)) if row.get(key) else None\<close>\<close>

definition rent_field ::
  "(string \<Rightarrow> real option) \<Rightarrow> csv_row \<Rightarrow> string \<Rightarrow> exn + real option" where
  "rent_field str_to_float row key =
     (if py_truth (row_get row key PyNone) then
        bind_exn (float_field str_to_float row key) (\<lambda>x. Inr (Some x))
      else Inr None)"

record om_data =
  property_summary :: PropertySummary
  data_unit_rents :: UnitRentData
  financials :: FinancialMetrics
  vacancy_egi :: VacancyEGIData

text \<open>The body of the \<^verbatim>\<open>try\<close> block after \<^verbatim>\<open>next(reader)\<close>, in the order of evaluation.\<close>

definition parse_row :: "(string \<Rightarrow> real option) \<Rightarrow> csv_row \<Rightarrow> exn + om_data" where
  "parse_row str_to_float row =
     bind_exn (py_lower (row_get row ''opportunity_zone'' (PyStr ''''))) (\<lambda>v_zone.
     bind_exn (float_field str_to_float row ''cap_rate'') (\<lambda>v_cap_rate.
     bind_exn (float_field str_to_float row ''rentable_sqft'') (\<lambda>v_rentable_sqft.
     bind_exn (float_field str_to_float row ''avg_sqft_per_unit'') (\<lambda>v_avg_sqft_per_unit.
     bind_exn (float_field str_to_float row ''asking_price'') (\<lambda>v_asking_price.
     bind_exn (float_field str_to_float row ''lot_size_acres'') (\<lambda>v_lot_size_acres.
     bind_exn (float_field str_to_float row ''total_units'') (\<lambda>v_total_units.
     bind_exn (rent_field str_to_float row ''one_bed_rent'') (\<lambda>v_one_bed.
     bind_exn (rent_field str_to_float row ''two_bed_rent'') (\<lambda>v_two_bed.
     bind_exn (rent_field str_to_float row ''three_bed_rent'') (\<lambda>v_three_bed.
     bind_exn (rent_field str_to_float row ''four_bed_rent'') (\<lambda>v_four_bed.
     bind_exn (float_field str_to_float row ''noi'') (\<lambda>v_noi.
     bind_exn (float_field str_to_float row ''cap_rate'') (\<lambda>v_fin_cap_rate.
     bind_exn (float_field str_to_float row ''price_per_sqft'') (\<lambda>v_price_per_sqft.
     bind_exn (float_field str_to_float row ''price_per_unit'') (\<lambda>v_price_per_unit.
     bind_exn (float_field str_to_float row ''price_per_acre'') (\<lambda>v_price_per_acre.
     bind_exn (float_field str_to_float row ''vacancy_rate'') (\<lambda>v_vacancy_rate.
     bind_exn (float_field str_to_float row ''gross_potential_rent'') (\<lambda>v_gross_potential_rent.
     Inr \<lparr>property_summary =
            \<lparr>summary_address =
               (case row_get row ''address'' (PyStr '''') of
                  PyStr s \<Rightarrow> Some s | PyNone \<Rightarrow> None | PyInt i \<Rightarrow> None),
             opportunity_zone = (v_zone = ''yes''),
             summary_cap_rate = v_cap_rate, rentable_sqft = py_int v_rentable_sqft,
             avg_sqft_per_unit = v_avg_sqft_per_unit, asking_price = v_asking_price,
             lot_size_acres = v_lot_size_acres, total_units = py_int v_total_units\<rparr>,
          data_unit_rents =
            \<lparr>one_bed = v_one_bed, two_bed = v_two_bed,
             three_bed = v_three_bed, four_bed = v_four_bed\<rparr>,
          financials =
            \<lparr>fin_noi = v_noi, fin_cap_rate = v_fin_cap_rate,
             fin_price_per_sqft = v_price_per_sqft, fin_price_per_unit = v_price_per_unit,
             fin_price_per_acre = v_price_per_acre\<rparr>,
          vacancy_egi =
            \<lparr>vacancy_rate = v_vacancy_rate, gross_potential_rent = v_gross_potential_rent,
             effective_gross_income = v_gross_potential_rent * (1 - v_vacancy_rate)\<rparr>\<rparr>
     ))))))))))))))))))"

text \<open>
  \<^verbatim>\<open>parse_csv_om_data\<close>. The CSV library is a parameter: \<^term>\<open>first_row\<close> stands for
  \<^verbatim>\<open>next(csv.DictReader(io.StringIO(csv_content)))\<close>, which raises \<^verbatim>\<open>StopIteration\<close> when
  the text has no data row. \<^verbatim>\<open>except Exception\<close> catches every exception of the body and
  raises \<^verbatim>\<open>HTTPException(status_code=400, detail=f"Error parsing CSV: {str(e)}")\<close>.
\<close>

definition parse_csv_om_data ::
  "(string \<Rightarrow> real option) \<Rightarrow> (string \<Rightarrow> exn + csv_row) \<Rightarrow> string \<Rightarrow> exn + om_data" where
  "parse_csv_om_data str_to_float first_row csv_content =
     (case bind_exn (first_row csv_content) (parse_row str_to_float) of
        Inl e \<Rightarrow> Inl (HTTPException 400 (ErrorParsingCSV e))
      | Inr d \<Rightarrow> Inr d)"

definition get_mock_om_data :: om_data where
  "get_mock_om_data =
     \<lparr>property_summary =
        \<lparr>summary_address = Some ''123 Main St, Tampa, FL'', opportunity_zone = False,
         summary_cap_rate = 54 / 10, rentable_sqft = 108750, avg_sqft_per_unit = 920,
         asking_price = 34250000, lot_size_acres = 185 / 100, total_units = 120\<rparr>,
      data_unit_rents =
        \<lparr>one_bed = Some 1650, two_bed = Some 2100, three_bed = Some 2450, four_bed = Some 2800\<rparr>,
      financials =
        \<lparr>fin_noi = 1890000, fin_cap_rate = 54 / 10, fin_price_per_sqft = 315,
         fin_price_per_unit = 285417, fin_price_per_acre = 18513514\<rparr>,
      vacancy_egi =
        \<lparr>vacancy_rate = 6 / 100, gross_potential_rent = 2300000,
         effective_gross_income = 2162000\<rparr>\<rparr>"

text \<open>
  The example row of \<^verbatim>\<open>/csv-template\<close>, and \<^verbatim>\<open>float\<close> on the number literals that occur in
  it.
\<close>

definition example_row :: csv_row where
  "example_row = map_of
     [(''address'', Some ''123 Main St, Tampa, FL''), (''opportunity_zone'', Some ''No''),
      (''cap_rate'', Some ''5.4''), (''rentable_sqft'', Some ''108750''),
      (''avg_sqft_per_unit'', Some ''920''), (''asking_price'', Some ''34250000''),
      (''lot_size_acres'', Some ''1.85''), (''total_units'', Some ''120''),
      (''one_bed_rent'', Some ''1650''), (''two_bed_rent'', Some ''2100''),
      (''three_bed_rent'', Some ''2450''), (''four_bed_rent'', Some ''2800''),
      (''noi'', Some ''1890000''), (''price_per_sqft'', Some ''315''),
      (''price_per_unit'', Some ''285417''), (''price_per_acre'', Some ''18513514''),
      (''vacancy_rate'', Some ''0.06''), (''gross_potential_rent'', Some ''2300000'')]"

definition example_float :: "string \<Rightarrow> real option" where
  "example_float = map_of
     [(''5.4'', 54 / 10), (''108750'', 108750), (''920'', 920), (''34250000'', 34250000),
      (''1.85'', 185 / 100), (''120'', 120), (''1650'', 1650), (''2100'', 2100),
      (''2450'', 2450), (''2800'', 2800), (''1890000'', 1890000), (''315'', 315),
      (''285417'', 285417), (''18513514'', 18513514), (''0.06'', 6 / 100),
      (''2300000'', 2300000)]"

section \<open>The primary operation: \<^verbatim>\<open>analyze_om\<close>\<close>

fun split_on :: "char \<Rightarrow> string \<Rightarrow> string list" where
  "split_on sep [] = [[]]"
| "split_on sep (c # cs) =
     (if c = sep then [] # split_on sep cs
      else (case split_on sep cs of [] \<Rightarrow> [[c]] | p # ps \<Rightarrow> (c # p) # ps))"

text \<open>
  \<^verbatim>\<open>s.strip()\<close> removes the leading and trailing whitespace. A \<^typ>\<open>char\<close> is a code point
  below 256 (text with other characters is outside the model); the whitespace among these
  are the ASCII ones (9 to 13, 28 to 32), the next-line character U+0085 and the no-break
  space U+00A0.
\<close>

definition py_isspace :: "char \<Rightarrow> bool" where
  "py_isspace c \<longleftrightarrow>
     (of_char c :: nat) \<in> set [9, 10, 11, 12, 13, 28, 29, 30, 31, 32, 133, 160]"

definition strip :: "string \<Rightarrow> string" where
  "strip s = rev (dropWhile py_isspace (rev (dropWhile py_isspace s)))"

definition extract_geography_from_address :: "string option \<Rightarrow> exn + string" where
  "extract_geography_from_address addr =
     (case addr of
        None \<Rightarrow> Inl AttributeError
      | Some a \<Rightarrow>
          let parts = split_on (CHR '','') a in
          if length parts \<ge> 2
          then Inr (strip (parts ! (length parts - 2)) @ '', '' @ strip (parts ! (length parts - 1)))
          else Inr ''Tampa, FL'')"

text \<open>
  The uploaded file: its bytes decode as UTF-8 to a text, or \<^verbatim>\<open>decode\<close> raises.
\<close>

datatype upload = Undecodable | Utf8Text string

record AnalysisResponse =
  resp_property_summary :: PropertySummary
  resp_unit_rents :: UnitRentData
  resp_financials :: FinancialMetrics
  resp_vacancy_egi :: VacancyEGIData
  resp_crexi_comps :: CompStats
  resp_realtor_comps :: CompStats
  resp_comparisons :: "ComparisonResult list"
  raw_crexi_comps :: "CompProperty list"
  raw_realtor_comps :: "CompProperty list"

text \<open>
  The body of the \<^verbatim>\<open>try\<close> block of \<^verbatim>\<open>analyze_om\<close>. The floating-point operations of
  the aggregation are passed on to it. The data store is a parameter:
  \<^term>\<open>market\<close> stands for \<^verbatim>\<open>get_supabase_market_data\<close>, which returns the lists of the two
  providers and raises nothing. \<^verbatim>\<open>store_om_data_in_supabase\<close> writes to the store, swallows
  its own exceptions and leaves the response alone, so it has no counterpart here.
\<close>

definition analyze_body ::
  "(string \<Rightarrow> real option) \<Rightarrow> (real list \<Rightarrow> real) \<Rightarrow> (real \<Rightarrow> real \<Rightarrow> real) \<Rightarrow>
   (string \<Rightarrow> exn + csv_row) \<Rightarrow>
   (string \<Rightarrow> CompProperty list \<times> CompProperty list) \<Rightarrow>
   CompFilterRequest \<Rightarrow> upload option \<Rightarrow> exn + AnalysisResponse" where
  "analyze_body str_to_float float_sum true_div first_row market filters om_csv =
     bind_exn
       (case om_csv of
          None \<Rightarrow> Inr get_mock_om_data
        | Some Undecodable \<Rightarrow> Inl UnicodeDecodeError
        | Some (Utf8Text csv_text) \<Rightarrow> parse_csv_om_data str_to_float first_row csv_text)
       (\<lambda>om. bind_exn (extract_geography_from_address (summary_address (property_summary om)))
       (\<lambda>geography.
          let market_data = market geography;
              crexi = (if fst market_data = [] then get_mock_crexi_comps else fst market_data);
              realtor = (if snd market_data = [] then get_mock_realtor_comps else snd market_data);
              crexi = apply_filters crexi filters;
              realtor = apply_filters realtor filters;
              crexi_stats = calculate_comp_stats float_sum true_div crexi;
              realtor_stats = calculate_comp_stats float_sum true_div realtor;
              metrics =
                \<lparr>om_price_per_unit = fin_price_per_unit (financials om),
                 om_price_per_sqft = fin_price_per_sqft (financials om),
                 om_cap_rate = fin_cap_rate (financials om),
                 om_unit_rents = data_unit_rents om\<rparr>
          in bind_exn (calculate_comparisons metrics crexi_stats realtor_stats)
          (\<lambda>comparisons.
             Inr \<lparr>resp_property_summary = property_summary om,
                  resp_unit_rents = data_unit_rents om,
                  resp_financials = financials om,
                  resp_vacancy_egi = vacancy_egi om,
                  resp_crexi_comps = crexi_stats,
                  resp_realtor_comps = realtor_stats,
                  resp_comparisons = comparisons,
                  raw_crexi_comps = crexi,
                  raw_realtor_comps = realtor\<rparr>)))"

text \<open>
  \<^verbatim>\<open>except Exception as e: raise HTTPException(status_code=500, detail=f"Analysis failed:
  {str(e)}")\<close> around the whole body. \<^verbatim>\<open>HTTPException\<close> is a subclass of \<^verbatim>\<open>Exception\<close>, so the
  handler also catches the one that \<^verbatim>\<open>parse_csv_om_data\<close> raises.
\<close>

definition analyze_om ::
  "(string \<Rightarrow> real option) \<Rightarrow> (real list \<Rightarrow> real) \<Rightarrow> (real \<Rightarrow> real \<Rightarrow> real) \<Rightarrow>
   (string \<Rightarrow> exn + csv_row) \<Rightarrow>
   (string \<Rightarrow> CompProperty list \<times> CompProperty list) \<Rightarrow>
   CompFilterRequest \<Rightarrow> upload option \<Rightarrow> exn + AnalysisResponse" where
  "analyze_om str_to_float float_sum true_div first_row market filters om_csv =
     (case analyze_body str_to_float float_sum true_div first_row market filters om_csv of
        Inl e \<Rightarrow> Inl (HTTPException 500 (AnalysisFailed e))
      | Inr response \<Rightarrow> Inr response)"

text \<open>The status code of the error a result carries, if it is an \<^verbatim>\<open>HTTPException\<close>.\<close>

fun status_code :: "exn + 'a \<Rightarrow> nat option" where
  "status_code (Inl (HTTPException code d)) = Some code"
| "status_code other = None"

section \<open>The comparison contract in the specification's words\<close>

text \<open>
  The metric pairs of the comparison set: the subject's value and the market average of a
  metric, \<^term>\<open>None\<close> when absent. The subject's price per unit, price per sqft and cap rate
  are floats of \<^verbatim>\<open>FinancialMetrics\<close> and always present.
\<close>

definition subject_value :: "string \<Rightarrow> om_metrics \<Rightarrow> real option" where
  "subject_value name om =
     (if name = ''Price per Unit'' then Some (om_price_per_unit om)
      else if name = ''Price per SqFt'' then Some (om_price_per_sqft om)
      else if name = ''Cap Rate'' then Some (om_cap_rate om)
      else if name = ''1BR Rent'' then one_bed (om_unit_rents om)
      else if name = ''2BR Rent'' then two_bed (om_unit_rents om)
      else None)"

definition market_average :: "string \<Rightarrow> CompStats \<Rightarrow> CompStats \<Rightarrow> real option" where
  "market_average name crexi_stats realtor_stats =
     (if name = ''Price per Unit'' then Some (avg_price_per_unit crexi_stats)
      else if name = ''Price per SqFt'' then Some (avg_price_per_sqft crexi_stats)
      else if name = ''Cap Rate'' then avg_cap_rate crexi_stats
      else if name = ''1BR Rent'' then
        (case avg_unit_rents realtor_stats of None \<Rightarrow> None | Some u \<Rightarrow> one_bed u)
      else if name = ''2BR Rent'' then
        (case avg_unit_rents realtor_stats of None \<Rightarrow> None | Some u \<Rightarrow> two_bed u)
      else None)"

text \<open>
  The emission guard as the specification states it: both sides present and the market
  average non-zero.
\<close>

definition spec_emits :: "string \<Rightarrow> om_metrics \<Rightarrow> CompStats \<Rightarrow> CompStats \<Rightarrow> bool" where
  "spec_emits name om crexi_stats realtor_stats \<longleftrightarrow>
     subject_value name om \<noteq> None \<and>
     market_average name crexi_stats realtor_stats \<noteq> None \<and>
     market_average name crexi_stats realtor_stats \<noteq> Some 0"

text \<open>The deviation by metric class: a point difference for the cap rate, a ratio otherwise.\<close>

definition spec_deviation :: "string \<Rightarrow> real \<Rightarrow> real \<Rightarrow> real" where
  "spec_deviation name subject market =
     (if name = ''Cap Rate'' then subject - market else (subject - market) / market * 100)"

text \<open>Reading a result: the names emitted.\<close>

definition metric_names :: "exn + ComparisonResult list \<Rightarrow> exn + string list" where
  "metric_names res = (case res of Inl e \<Rightarrow> Inl e | Inr rs \<Rightarrow> Inr (map metric_name rs))"

text \<open>Concrete inputs: the metrics of the built-in subject, and variants of them.\<close>

definition mock_metrics :: om_metrics where
  "mock_metrics =
     \<lparr>om_price_per_unit = fin_price_per_unit (financials get_mock_om_data),
      om_price_per_sqft = fin_price_per_sqft (financials get_mock_om_data),
      om_cap_rate = fin_cap_rate (financials get_mock_om_data),
      om_unit_rents = data_unit_rents get_mock_om_data\<rparr>"

definition zero_rent_metrics :: om_metrics where
  "zero_rent_metrics =
     mock_metrics\<lparr>om_cap_rate := 0, om_unit_rents := (om_unit_rents mock_metrics)\<lparr>one_bed := Some 0\<rparr>\<rparr>"

definition oak_stats :: CompStats where
  "oak_stats = calculate_comp_stats double_sum double_div [oak_comp]"

definition maple_stats :: CompStats where
  "maple_stats = calculate_comp_stats double_sum double_div [rent_only_comp]"

definition cap5_comp :: CompProperty where
  "cap5_comp = rent_only_comp\<lparr>cap_rate := Some 5\<rparr>"

definition cap15_comp :: CompProperty where
  "cap15_comp = rent_only_comp\<lparr>cap_rate := Some 15\<rparr>"

definition cap1_comp :: CompProperty where
  "cap1_comp = rent_only_comp\<lparr>cap_rate := Some 1\<rparr>"

definition cap2_comp :: CompProperty where
  "cap2_comp = rent_only_comp\<lparr>cap_rate := Some 2\<rparr>"

definition bad_number_row :: csv_row where
  "bad_number_row = [''cap_rate'' \<mapsto> Some ''abc'']"

text \<open>
  The entry the specification describes for a metric: the two values, the deviation of the
  metric's class and the annotation with its sign prefix.
\<close>

definition expected_entry :: "string \<Rightarrow> string \<Rightarrow> real \<Rightarrow> real \<Rightarrow> ComparisonResult" where
  "expected_entry name ending subject market =
     \<lparr>metric_name = name, om_value = Some subject, market_value = Some market,
      deviation_percent = Some (spec_deviation name subject market),
      deviation_comment =
        (if spec_deviation name subject market > 0 then ''+'' else []) @
        format_1f (spec_deviation name subject market) @ ending\<rparr>"

text \<open>
  The result of comparing the built-in subject with the statistics of the first built-in
  CREXi comparable and of the first built-in Realtor comparable.
\<close>

definition oak_results :: "ComparisonResult list" where
  "oak_results =
     [\<lparr>metric_name = ''Price per Unit'', om_value = Some 285417, market_value = Some 291304,
       deviation_percent = Some (- (147175 / 72826)),
       deviation_comment = ''-2.0% vs CREXi market''\<rparr>,
      \<lparr>metric_name = ''Price per SqFt'', om_value = Some 315, market_value = Some 312,
       deviation_percent = Some (25 / 26),
       deviation_comment = ''+1.0% vs CREXi market''\<rparr>,
      \<lparr>metric_name = ''Cap Rate'', om_value = Some (54 / 10), market_value = Some (55 / 10),
       deviation_percent = Some (- (1 / 10)),
       deviation_comment = ''-0.1pp vs CREXi market''\<rparr>,
      \<lparr>metric_name = ''1BR Rent'', om_value = Some 1650, market_value = Some 1525,
       deviation_percent = Some (500 / 61),
       deviation_comment = ''+8.2% vs Realtor market''\<rparr>,
      \<lparr>metric_name = ''2BR Rent'', om_value = Some 2100, market_value = Some 1943,
       deviation_percent = Some (15700 / 1943),
       deviation_comment = ''+8.1% vs Realtor market''\<rparr>]"

text \<open>The record parsed from a row with no named column at all.\<close>

definition empty_row_om :: om_data where
  "empty_row_om =
     \<lparr>property_summary =
        \<lparr>summary_address = Some '''', opportunity_zone = False,
         summary_cap_rate = 0, rentable_sqft = 0, avg_sqft_per_unit = 0,
         asking_price = 0, lot_size_acres = 0, total_units = 0\<rparr>,
      data_unit_rents = \<lparr>one_bed = None, two_bed = None, three_bed = None, four_bed = None\<rparr>,
      financials =
        \<lparr>fin_noi = 0, fin_cap_rate = 0, fin_price_per_sqft = 0,
         fin_price_per_unit = 0, fin_price_per_acre = 0\<rparr>,
      vacancy_egi =
        \<lparr>vacancy_rate = 0, gross_potential_rent = 0, effective_gross_income = 0\<rparr>\<rparr>"

section \<open>Properties of the filter\<close>

lemma apply_filters_loop_filter:
  "apply_filters_loop comps filters acc = acc @ filter (\<lambda>c. \<not> skipped filters c) comps"
  by (induction comps arbitrary: acc) simp_all

lemma apply_filters_filter:
  "apply_filters comps filters = filter (\<lambda>c. \<not> skipped filters c) comps"
  by (simp add: apply_filters_def apply_filters_loop_filter)

lemma below_min_iff: "below_min b v \<longleftrightarrow> \<not> min_ok b v"
  by (auto simp: below_min_def min_ok_def split: option.splits)

lemma above_max_iff: "above_max b v \<longleftrightarrow> \<not> max_ok b v"
  by (auto simp: above_max_def max_ok_def split: option.splits)

lemma skipped_iff: "skipped filters c \<longleftrightarrow> \<not> keeps filters c"
  unfolding skipped_def keeps_def below_min_iff above_max_iff by simp

lemma skipped_no_filters: "\<not> skipped no_filters c"
  by (simp add: skipped_def no_filters_def below_min_def above_max_def)

lemma skipped_price_floor_zero: "\<not> skipped price_floor_filter zero_price_comp"
  by (simp add: skipped_def price_floor_filter_def no_filters_def oak_comp_def
      zero_price_comp_def below_min_def above_max_def)

lemma below_min_unset: "below_min None v = False" "below_min (Some 0) v = False"
  by (simp_all add: below_min_def)

lemma above_max_unset: "above_max None v = False" "above_max (Some 0) v = False"
  by (simp_all add: above_max_def)

lemma skipped_zero_bound:
  "skipped (filters\<lparr>price_min := Some 0\<rparr>) c = skipped (filters\<lparr>price_min := None\<rparr>) c"
  "skipped (filters\<lparr>price_max := Some 0\<rparr>) c = skipped (filters\<lparr>price_max := None\<rparr>) c"
  "skipped (filters\<lparr>units_min := Some 0\<rparr>) c = skipped (filters\<lparr>units_min := None\<rparr>) c"
  "skipped (filters\<lparr>units_max := Some 0\<rparr>) c = skipped (filters\<lparr>units_max := None\<rparr>) c"
  "skipped (filters\<lparr>filter_distance_miles := Some 0\<rparr>) c =
     skipped (filters\<lparr>filter_distance_miles := None\<rparr>) c"
  "skipped (filters\<lparr>cap_rate_min := Some 0\<rparr>) c = skipped (filters\<lparr>cap_rate_min := None\<rparr>) c"
  "skipped (filters\<lparr>cap_rate_max := Some 0\<rparr>) c = skipped (filters\<lparr>cap_rate_max := None\<rparr>) c"
  "skipped (filters\<lparr>price_per_unit_min := Some 0\<rparr>) c =
     skipped (filters\<lparr>price_per_unit_min := None\<rparr>) c"
  "skipped (filters\<lparr>price_per_unit_max := Some 0\<rparr>) c =
     skipped (filters\<lparr>price_per_unit_max := None\<rparr>) c"
  "skipped (filters\<lparr>price_per_sqft_min := Some 0\<rparr>) c =
     skipped (filters\<lparr>price_per_sqft_min := None\<rparr>) c"
  "skipped (filters\<lparr>price_per_sqft_max := Some 0\<rparr>) c =
     skipped (filters\<lparr>price_per_sqft_max := None\<rparr>) c"
  "skipped (filters\<lparr>price_per_acre_min := Some 0\<rparr>) c =
     skipped (filters\<lparr>price_per_acre_min := None\<rparr>) c"
  "skipped (filters\<lparr>price_per_acre_max := Some 0\<rparr>) c =
     skipped (filters\<lparr>price_per_acre_max := None\<rparr>) c"
  unfolding skipped_def by (simp_all add: below_min_unset above_max_unset)

text \<open>
  Claim C9. Filtering with a request in which no bound is set returns the input list
  unchanged.
\<close>

theorem apply_filters_no_bounds_identity: "apply_filters comps no_filters = comps"
  by (simp add: apply_filters_filter skipped_no_filters)

text \<open>
  Claim C10. Setting any one of the thirteen bounds to 0 gives the same output as leaving
  that bound unset, whatever the other bounds and the input list are.
\<close>

theorem apply_filters_zero_bound_unset:
  "apply_filters comps (filters\<lparr>price_min := Some 0\<rparr>) =
     apply_filters comps (filters\<lparr>price_min := None\<rparr>) \<and>
   apply_filters comps (filters\<lparr>price_max := Some 0\<rparr>) =
     apply_filters comps (filters\<lparr>price_max := None\<rparr>) \<and>
   apply_filters comps (filters\<lparr>units_min := Some 0\<rparr>) =
     apply_filters comps (filters\<lparr>units_min := None\<rparr>) \<and>
   apply_filters comps (filters\<lparr>units_max := Some 0\<rparr>) =
     apply_filters comps (filters\<lparr>units_max := None\<rparr>) \<and>
   apply_filters comps (filters\<lparr>filter_distance_miles := Some 0\<rparr>) =
     apply_filters comps (filters\<lparr>filter_distance_miles := None\<rparr>) \<and>
   apply_filters comps (filters\<lparr>cap_rate_min := Some 0\<rparr>) =
     apply_filters comps (filters\<lparr>cap_rate_min := None\<rparr>) \<and>
   apply_filters comps (filters\<lparr>cap_rate_max := Some 0\<rparr>) =
     apply_filters comps (filters\<lparr>cap_rate_max := None\<rparr>) \<and>
   apply_filters comps (filters\<lparr>price_per_unit_min := Some 0\<rparr>) =
     apply_filters comps (filters\<lparr>price_per_unit_min := None\<rparr>) \<and>
   apply_filters comps (filters\<lparr>price_per_unit_max := Some 0\<rparr>) =
     apply_filters comps (filters\<lparr>price_per_unit_max := None\<rparr>) \<and>
   apply_filters comps (filters\<lparr>price_per_sqft_min := Some 0\<rparr>) =
     apply_filters comps (filters\<lparr>price_per_sqft_min := None\<rparr>) \<and>
   apply_filters comps (filters\<lparr>price_per_sqft_max := Some 0\<rparr>) =
     apply_filters comps (filters\<lparr>price_per_sqft_max := None\<rparr>) \<and>
   apply_filters comps (filters\<lparr>price_per_acre_min := Some 0\<rparr>) =
     apply_filters comps (filters\<lparr>price_per_acre_min := None\<rparr>) \<and>
   apply_filters comps (filters\<lparr>price_per_acre_max := Some 0\<rparr>) =
     apply_filters comps (filters\<lparr>price_per_acre_max := None\<rparr>)"
  by (simp add: apply_filters_filter skipped_zero_bound)

text \<open>
  Claim C2, as stated, fails: a comparable that reports a price of 0 survives a price floor
  of 100, although its price is present and below the bound; the specification's contract
  rejects it.
\<close>

theorem apply_filters_zero_field_counterexample:
  "apply_filters [zero_price_comp] price_floor_filter = [zero_price_comp] \<and>
   filter (spec_keeps price_floor_filter) [zero_price_comp] = []"
proof -
  have "apply_filters [zero_price_comp] price_floor_filter = [zero_price_comp]"
    by (simp add: apply_filters_filter skipped_price_floor_zero)
  moreover have "\<not> spec_keeps price_floor_filter zero_price_comp"
    by (simp add: spec_keeps_def spec_min_ok_def price_floor_filter_def no_filters_def
        zero_price_comp_def oak_comp_def)
  ultimately show ?thesis by simp
qed

text \<open>
  Claim C2, amended. The filter returns exactly the sublist, in the input's order, of the
  comparables that respect every bound set to a non-zero value, where a comparable respects
  a bound when it lacks the field, reports it as 0, or satisfies the bound. (A bound that is
  unset or 0 constrains nothing; a field that is absent or 0 is never the cause of an
  exclusion.)
\<close>

theorem apply_filters_contract: "apply_filters comps filters = filter (keeps filters) comps"
  by (simp add: apply_filters_filter skipped_iff)

theorem apply_filters_contract_witness:
  "apply_filters [oak_comp, rent_only_comp] (no_filters\<lparr>price_min := Some 34000000\<rparr>) = [rent_only_comp]"
  unfolding apply_filters_contract [of "[oak_comp, rent_only_comp]" "no_filters\<lparr>price_min := Some 34000000\<rparr>"]
  by (simp add: keeps_def min_ok_def max_ok_def no_filters_def oak_comp_def rent_only_comp_def)

section \<open>Properties of the aggregation\<close>

lemma comprehension_reporting:
  "[the (f c). c \<leftarrow> xs, f c \<noteq> None] = reported_values f xs"
  by (induction xs) (simp_all add: reported_values_def reporting_def)

lemma reporting_simps:
  "reporting f [] = []"
  "reporting f (x # xs) = (case f x of None \<Rightarrow> reporting f xs | Some v \<Rightarrow> x # reporting f xs)"
  by (simp_all add: reporting_def split: option.splits)

lemma reported_values_Nil: "reported_values f xs = [] \<longleftrightarrow> reporting f xs = []"
  by (simp add: reported_values_def)

lemma stats_empty:
  "calculate_comp_stats float_sum true_div [] =
     \<lparr>total_scraped = 0, filtered_count = 0, avg_price = 0, avg_units = 0,
      avg_cap_rate = None, avg_price_per_unit = 0, avg_price_per_sqft = 0,
      avg_price_per_acre = None, avg_noi = None, avg_unit_rents = None\<rparr>"
  by (simp add: calculate_comp_stats_def)

lemma stats_nonempty:
  "comps \<noteq> [] \<Longrightarrow> calculate_comp_stats float_sum true_div comps =
     \<lparr>total_scraped = length comps, filtered_count = length comps,
      avg_price =
        (if reporting price comps = [] then 0
         else float_mean float_sum true_div (reported_values price comps)),
      avg_units =
        (if reporting units comps = [] then 0
         else units_mean true_div (reported_values units comps)),
      avg_cap_rate = spec_average float_sum true_div cap_rate comps,
      avg_price_per_unit =
        (if reporting price_per_unit comps = [] then 0
         else float_mean float_sum true_div (reported_values price_per_unit comps)),
      avg_price_per_sqft =
        (if reporting price_per_sqft comps = [] then 0
         else float_mean float_sum true_div (reported_values price_per_sqft comps)),
      avg_price_per_acre = spec_average float_sum true_div price_per_acre comps,
      avg_noi = spec_average float_sum true_div noi comps,
      avg_unit_rents =
        (if reporting unit_rents comps = [] then None
         else Some \<lparr>one_bed = spec_average float_sum true_div one_bed (reported_rents comps),
                    two_bed = spec_average float_sum true_div two_bed (reported_rents comps),
                    three_bed = spec_average float_sum true_div three_bed (reported_rents comps),
                    four_bed = spec_average float_sum true_div four_bed (reported_rents comps)\<rparr>)\<rparr>"
  unfolding calculate_comp_stats_def comprehension_reporting Let_def
    spec_average_def float_mean_def units_mean_def reported_rents_def
  by (simp add: reported_values_Nil)

text \<open>Doubles that the operations return unchanged, and two quotients that they round.\<close>

lemma round_double_values:
  "round_double 0 = 0" "round_double 1 = 1" "round_double 3 = 3" "round_double 5 = 5"
  "round_double 10 = 10" "round_double 20 = 20"
  "round_double (11 / 2) = 11 / 2" "round_double 115 = 115" "round_double 312 = 312"
  "round_double 1525 = 1525" "round_double 1943 = 1943" "round_double 2263 = 2263"
  "round_double 2538 = 2538" "round_double 291304 = 291304" "round_double 1842500 = 1842500"
  "round_double 18200000 = 18200000" "round_double 33500000 = 33500000"
  "round_double (5 / 3) = 7505999378950827 / 4503599627370496"
  by (simp_all add: round_double_def binary_exponent_def pow2_def round_half_even_def
      bit_length.simps Let_def)

lemma double_mean_single:
  "round_double v = v \<Longrightarrow> float_mean double_sum double_div [v] = v"
  by (simp add: float_mean_def double_sum_def double_add_def double_div_def)

lemma oak_stats_value:
  "oak_stats =
     \<lparr>total_scraped = 1, filtered_count = 1, avg_price = 33500000, avg_units = 115,
      avg_cap_rate = Some (11 / 2), avg_price_per_unit = 291304, avg_price_per_sqft = 312,
      avg_price_per_acre = Some 18200000, avg_noi = Some 1842500, avg_unit_rents = None\<rparr>"
  by (simp add: oak_stats_def stats_nonempty spec_average_def reported_values_def
      reporting_simps oak_comp_def double_mean_single units_mean_def double_div_def
      round_double_values)

lemma maple_stats_value:
  "maple_stats =
     \<lparr>total_scraped = 1, filtered_count = 1, avg_price = 0, avg_units = 0,
      avg_cap_rate = None, avg_price_per_unit = 0, avg_price_per_sqft = 0,
      avg_price_per_acre = None, avg_noi = None,
      avg_unit_rents = Some \<lparr>one_bed = Some 1525, two_bed = Some 1943,
                              three_bed = Some 2263, four_bed = Some 2538\<rparr>\<rparr>"
  by (simp add: maple_stats_def stats_nonempty spec_average_def reported_values_def
      reported_rents_def reporting_simps rent_only_comp_def double_mean_single
      round_double_values)

text \<open>
  Claim C1, as stated, fails twice. The average price, units, price per unit and price per
  sqft of an empty reporting subset are 0, for the empty list and for a list in which no
  element reports the field, so that a list whose only comparable reports no price and a
  list whose only comparable reports the price 0 have the same statistics. And the average
  of a non-empty reporting subset is a double, not the exact mean: the cap rates 1, 2, 2
  average to the double nearest to 5/3.
\<close>

theorem calculate_comp_stats_zero_counterexample:
  "avg_price (calculate_comp_stats double_sum double_div []) = 0 \<and>
   avg_units (calculate_comp_stats double_sum double_div []) = 0 \<and>
   avg_price_per_unit (calculate_comp_stats double_sum double_div []) = 0 \<and>
   avg_price_per_sqft (calculate_comp_stats double_sum double_div []) = 0 \<and>
   price rent_only_comp = None \<and>
   avg_price (calculate_comp_stats double_sum double_div [rent_only_comp]) = 0 \<and>
   calculate_comp_stats double_sum double_div [rent_only_comp] =
     calculate_comp_stats double_sum double_div [rent_only_comp\<lparr>price := Some 0\<rparr>] \<and>
   avg_cap_rate (calculate_comp_stats double_sum double_div [cap1_comp, cap2_comp, cap2_comp]) =
     Some (7505999378950827 / 4503599627370496) \<and>
   arithmetic_mean [1, 2, 2] = 5 / 3 \<and>
   (7505999378950827 / 4503599627370496 :: real) \<noteq> 5 / 3"
proof -
  have empty: "calculate_comp_stats double_sum double_div [] =
      \<lparr>total_scraped = 0, filtered_count = 0, avg_price = 0, avg_units = 0,
       avg_cap_rate = None, avg_price_per_unit = 0, avg_price_per_sqft = 0,
       avg_price_per_acre = None, avg_noi = None, avg_unit_rents = None\<rparr>"
    by (rule stats_empty)
  have absent: "calculate_comp_stats double_sum double_div [rent_only_comp] =
      \<lparr>total_scraped = 1, filtered_count = 1, avg_price = 0, avg_units = 0,
       avg_cap_rate = None, avg_price_per_unit = 0, avg_price_per_sqft = 0,
       avg_price_per_acre = None, avg_noi = None,
       avg_unit_rents = Some \<lparr>one_bed = Some 1525, two_bed = Some 1943,
                               three_bed = Some 2263, four_bed = Some 2538\<rparr>\<rparr>"
    using maple_stats_value by (simp add: maple_stats_def)
  have zero: "calculate_comp_stats double_sum double_div [rent_only_comp\<lparr>price := Some 0\<rparr>] =
      \<lparr>total_scraped = 1, filtered_count = 1, avg_price = 0, avg_units = 0,
       avg_cap_rate = None, avg_price_per_unit = 0, avg_price_per_sqft = 0,
       avg_price_per_acre = None, avg_noi = None,
       avg_unit_rents = Some \<lparr>one_bed = Some 1525, two_bed = Some 1943,
                               three_bed = Some 2263, four_bed = Some 2538\<rparr>\<rparr>"
    by (simp add: stats_nonempty spec_average_def reported_values_def
        reported_rents_def reporting_simps rent_only_comp_def double_mean_single
        round_double_values)
  have rounded: "avg_cap_rate
      (calculate_comp_stats double_sum double_div [cap1_comp, cap2_comp, cap2_comp]) =
      Some (7505999378950827 / 4503599627370496)"
    by (simp add: stats_nonempty spec_average_def reported_values_def reporting_simps
        cap1_comp_def cap2_comp_def rent_only_comp_def float_mean_def double_sum_def
        double_add_def double_div_def round_double_values)
  have mean: "arithmetic_mean [1, 2, 2] = 5 / 3"
    by (simp add: arithmetic_mean_def)
  have differ: "(7505999378950827 / 4503599627370496 :: real) \<noteq> 5 / 3"
    by simp
  have none: "price rent_only_comp = None"
    by (simp add: rent_only_comp_def)
  show ?thesis
    unfolding empty absent zero rounded mean using differ none by simp
qed

text \<open>
  Claim C1, amended. For every list of comparables (the empty one included): the averages of
  cap rate, price per acre and NOI are undefined when the field's reporting subset is empty;
  the unit-rent aggregate is undefined when no comparable carries unit rents, and otherwise
  each bedroom's average is undefined when no carried profile reports it; the averages of
  price, units, price per unit and price per sqft are 0 when the field's reporting subset is
  empty. The average of a non-empty reporting subset is defined and is the floating-point
  quotient of the sum of the reported values, as the runtime computes it, by their number;
  it is the exact arithmetic mean when that sum and that quotient are computed without
  rounding error (as for 5 and 15, which average to exactly 10).
\<close>

theorem calculate_comp_stats_averages:
  "avg_cap_rate (calculate_comp_stats float_sum true_div comps) =
     spec_average float_sum true_div cap_rate comps \<and>
   avg_price_per_acre (calculate_comp_stats float_sum true_div comps) =
     spec_average float_sum true_div price_per_acre comps \<and>
   avg_noi (calculate_comp_stats float_sum true_div comps) =
     spec_average float_sum true_div noi comps \<and>
   avg_unit_rents (calculate_comp_stats float_sum true_div comps) =
     (if reporting unit_rents comps = [] then None
      else Some \<lparr>one_bed = spec_average float_sum true_div one_bed (reported_rents comps),
                 two_bed = spec_average float_sum true_div two_bed (reported_rents comps),
                 three_bed = spec_average float_sum true_div three_bed (reported_rents comps),
                 four_bed = spec_average float_sum true_div four_bed (reported_rents comps)\<rparr>) \<and>
   avg_price (calculate_comp_stats float_sum true_div comps) =
     (if reporting price comps = [] then 0
      else float_mean float_sum true_div (reported_values price comps)) \<and>
   avg_units (calculate_comp_stats float_sum true_div comps) =
     (if reporting units comps = [] then 0
      else units_mean true_div (reported_values units comps)) \<and>
   avg_price_per_unit (calculate_comp_stats float_sum true_div comps) =
     (if reporting price_per_unit comps = [] then 0
      else float_mean float_sum true_div (reported_values price_per_unit comps)) \<and>
   avg_price_per_sqft (calculate_comp_stats float_sum true_div comps) =
     (if reporting price_per_sqft comps = [] then 0
      else float_mean float_sum true_div (reported_values price_per_sqft comps)) \<and>
   (float_sum vs = sum_list vs \<and>
    true_div (sum_list vs) (real (length vs)) = sum_list vs / real (length vs) \<longrightarrow>
      float_mean float_sum true_div vs = arithmetic_mean vs)"
proof (cases "comps = []")
  case True
  then show ?thesis
    by (simp add: stats_empty spec_average_def reporting_def float_mean_def arithmetic_mean_def)
next
  case False
  then show ?thesis
    by (simp add: stats_nonempty float_mean_def arithmetic_mean_def)
qed

theorem calculate_comp_stats_averages_witness:
  "double_sum [5, 15] = sum_list [5, 15] \<and>
   double_div (sum_list [5, 15]) (real (length [5, 15 :: real])) = 20 / 2 \<and>
   float_mean double_sum double_div [5, 15] = arithmetic_mean [5, 15] \<and>
   arithmetic_mean [5, 15] = 10 \<and>
   avg_cap_rate (calculate_comp_stats double_sum double_div [cap5_comp, rent_only_comp, cap15_comp]) =
     Some 10 \<and>
   avg_noi (calculate_comp_stats double_sum double_div [cap5_comp, rent_only_comp, cap15_comp]) = None \<and>
   avg_price (calculate_comp_stats double_sum double_div [cap5_comp, rent_only_comp, cap15_comp]) = 0"
proof -
  have s: "double_sum [5, 15] = sum_list [5, 15]"
    by (simp add: double_sum_def double_add_def round_double_values)
  have q: "double_div (sum_list [5, 15]) (real (length [5, 15 :: real])) =
      sum_list [5, 15] / real (length [5, 15 :: real])"
    by (simp add: double_div_def round_double_values)
  have m: "arithmetic_mean [5, 15] = 10"
    by (simp add: arithmetic_mean_def)
  from calculate_comp_stats_averages
    [of double_sum double_div "[cap5_comp, rent_only_comp, cap15_comp]" "[5, 15]"] s q
  have "avg_cap_rate (calculate_comp_stats double_sum double_div [cap5_comp, rent_only_comp, cap15_comp]) =
      spec_average double_sum double_div cap_rate [cap5_comp, rent_only_comp, cap15_comp]"
    and "avg_noi (calculate_comp_stats double_sum double_div [cap5_comp, rent_only_comp, cap15_comp]) =
      spec_average double_sum double_div noi [cap5_comp, rent_only_comp, cap15_comp]"
    and "avg_price (calculate_comp_stats double_sum double_div [cap5_comp, rent_only_comp, cap15_comp]) =
      (if reporting price [cap5_comp, rent_only_comp, cap15_comp] = [] then 0
       else float_mean double_sum double_div
              (reported_values price [cap5_comp, rent_only_comp, cap15_comp]))"
    and e: "float_mean double_sum double_div [5, 15] = arithmetic_mean [5, 15]"
    by blast+
  moreover have "reported_values cap_rate [cap5_comp, rent_only_comp, cap15_comp] = [5, 15]"
    "reporting cap_rate [cap5_comp, rent_only_comp, cap15_comp] = [cap5_comp, cap15_comp]"
    "reporting noi [cap5_comp, rent_only_comp, cap15_comp] = []"
    "reporting price [cap5_comp, rent_only_comp, cap15_comp] = []"
    by (simp_all add: reported_values_def reporting_simps cap5_comp_def cap15_comp_def
        rent_only_comp_def)
  ultimately show ?thesis
    using s q m by (simp add: spec_average_def)
qed

section \<open>Properties of the comparison calculator\<close>

lemma bind_exn_simps:
  "bind_exn (Inr x) f = f x"
  "bind_exn (Inl e) f = Inl e"
  by (simp_all add: bind_exn_def)

lemma truthy_Some: "truthy x \<Longrightarrow> x = Some (the x) \<and> the x \<noteq> 0"
  by (cases x) (simp_all add: truthy_def)

lemma truthy_iff: "truthy x \<longleftrightarrow> (\<exists>v. x = Some v \<and> v \<noteq> 0)"
  by (cases x) (simp_all add: truthy_def)

text \<open>What each block appends to the list it is given.\<close>

lemma ratio_result_value:
  "market \<noteq> 0 \<Longrightarrow> name \<noteq> ''Cap Rate'' \<Longrightarrow>
   ratio_result name ending subject market = Inr (expected_entry name ending subject market)"
  unfolding ratio_result_def py_truediv_def Let_def expected_entry_def spec_deviation_def
    sign_prefix_def
  by (simp only: bind_exn_simps if_False)

lemma price_per_unit_block_value:
  "price_per_unit_block om c acc =
     Inr (acc @
       (if avg_price_per_unit c > 0
        then [expected_entry ''Price per Unit'' ''% vs CREXi market''
                (om_price_per_unit om) (avg_price_per_unit c)]
        else []))"
  by (simp add: price_per_unit_block_def ratio_result_value bind_exn_simps)

lemma price_per_sqft_block_value:
  "price_per_sqft_block om c acc =
     Inr (acc @
       (if avg_price_per_sqft c > 0
        then [expected_entry ''Price per SqFt'' ''% vs CREXi market''
                (om_price_per_sqft om) (avg_price_per_sqft c)]
        else []))"
  by (simp add: price_per_sqft_block_def ratio_result_value bind_exn_simps)

lemma cap_rate_block_value:
  "cap_rate_block om c acc =
     Inr (acc @
       (if truthy (avg_cap_rate c) \<and> om_cap_rate om \<noteq> 0
        then [expected_entry ''Cap Rate'' ''pp vs CREXi market''
                (om_cap_rate om) (the (avg_cap_rate c))]
        else []))"
  using truthy_Some [of "avg_cap_rate c"]
  by (simp add: cap_rate_block_def Let_def expected_entry_def spec_deviation_def sign_prefix_def)

lemma one_bed_block_value:
  "one_bed_block om u acc =
     Inr (acc @
       (if truthy (one_bed (om_unit_rents om)) \<and> truthy (one_bed u)
        then [expected_entry ''1BR Rent'' ''% vs Realtor market''
                (the (one_bed (om_unit_rents om))) (the (one_bed u))]
        else []))"
  using truthy_Some [of "one_bed u"]
  by (simp add: one_bed_block_def ratio_result_value bind_exn_simps)

lemma two_bed_block_value:
  "two_bed_block om u acc =
     Inr (acc @
       (if truthy (two_bed (om_unit_rents om)) \<and> truthy (two_bed u)
        then [expected_entry ''2BR Rent'' ''% vs Realtor market''
                (the (two_bed (om_unit_rents om))) (the (two_bed u))]
        else []))"
  using truthy_Some [of "two_bed u"]
  by (simp add: two_bed_block_def ratio_result_value bind_exn_simps)

lemma unit_rent_blocks_value:
  "unit_rent_blocks om r acc =
     Inr (acc @
       (case avg_unit_rents r of
          None \<Rightarrow> []
        | Some u \<Rightarrow>
            (if truthy (one_bed (om_unit_rents om)) \<and> truthy (one_bed u)
             then [expected_entry ''1BR Rent'' ''% vs Realtor market''
                     (the (one_bed (om_unit_rents om))) (the (one_bed u))]
             else []) @
            (if truthy (two_bed (om_unit_rents om)) \<and> truthy (two_bed u)
             then [expected_entry ''2BR Rent'' ''% vs Realtor market''
                     (the (two_bed (om_unit_rents om))) (the (two_bed u))]
             else [])))"
  by (cases "avg_unit_rents r")
     (simp_all only: unit_rent_blocks_def one_bed_block_value two_bed_block_value bind_exn_simps
        option.case append_Nil2 append_assoc)

text \<open>
  The whole result: the calculator never raises (every division is behind its guard) and
  returns the entries of the blocks whose guards hold, in the order of the blocks.
\<close>

lemma calculate_comparisons_value:
  "calculate_comparisons om c r =
     Inr ((if avg_price_per_unit c > 0
           then [expected_entry ''Price per Unit'' ''% vs CREXi market''
                   (om_price_per_unit om) (avg_price_per_unit c)]
           else []) @
          (if avg_price_per_sqft c > 0
           then [expected_entry ''Price per SqFt'' ''% vs CREXi market''
                   (om_price_per_sqft om) (avg_price_per_sqft c)]
           else []) @
          (if truthy (avg_cap_rate c) \<and> om_cap_rate om \<noteq> 0
           then [expected_entry ''Cap Rate'' ''pp vs CREXi market''
                   (om_cap_rate om) (the (avg_cap_rate c))]
           else []) @
          (case avg_unit_rents r of
             None \<Rightarrow> []
           | Some u \<Rightarrow>
               (if truthy (one_bed (om_unit_rents om)) \<and> truthy (one_bed u)
                then [expected_entry ''1BR Rent'' ''% vs Realtor market''
                        (the (one_bed (om_unit_rents om))) (the (one_bed u))]
                else []) @
               (if truthy (two_bed (om_unit_rents om)) \<and> truthy (two_bed u)
                then [expected_entry ''2BR Rent'' ''% vs Realtor market''
                        (the (two_bed (om_unit_rents om))) (the (two_bed u))]
                else [])))"
  by (simp only: calculate_comparisons_def price_per_unit_block_value
        price_per_sqft_block_value cap_rate_block_value unit_rent_blocks_value bind_exn_simps
        append_Nil append_assoc)

lemma metric_name_expected_entry [simp]: "metric_name (expected_entry name ending s m) = name"
  by (simp add: expected_entry_def)

lemma calculate_comparisons_names:
  "metric_names (calculate_comparisons om c r) =
     Inr ((if avg_price_per_unit c > 0 then [''Price per Unit''] else []) @
          (if avg_price_per_sqft c > 0 then [''Price per SqFt''] else []) @
          (if truthy (avg_cap_rate c) \<and> om_cap_rate om \<noteq> 0 then [''Cap Rate''] else []) @
          (case avg_unit_rents r of
             None \<Rightarrow> []
           | Some u \<Rightarrow>
               (if truthy (one_bed (om_unit_rents om)) \<and> truthy (one_bed u)
                then [''1BR Rent''] else []) @
               (if truthy (two_bed (om_unit_rents om)) \<and> truthy (two_bed u)
                then [''2BR Rent''] else [])))"
  by (cases "avg_unit_rents r") (simp_all add: calculate_comparisons_value metric_names_def)

lemma digit_char_digit: "d < 10 \<Longrightarrow> digit_char d \<in> set ''0123456789''"
  unfolding digit_char_def by (rule nth_mem) simp

lemma str_nat_head: "str_nat n \<noteq> [] \<and> hd (str_nat n) \<in> set ''0123456789''"
proof (induction n rule: str_nat.induct)
  case (1 n)
  show ?case
  proof (cases "n < 10")
    case True
    then have "str_nat n = [digit_char n]"
      by (simp add: str_nat.simps)
    with True show ?thesis
      using digit_char_digit [of n] by simp
  next
    case False
    then have "str_nat n = str_nat (n div 10) @ [digit_char (n mod 10)]"
      by (subst str_nat.simps) simp
    with False 1 show ?thesis
      by simp
  qed
qed

lemma format_1f_head: "format_1f x \<noteq> [] \<and> hd (format_1f x) \<noteq> CHR ''+''"
proof (cases "x < 0")
  case True
  then show ?thesis
    by (simp add: format_1f_def Let_def)
next
  case False
  define k where "k = nat (round_half_even (\<bar>x\<bar> * 10)) div 10"
  have "hd (str_nat k) \<noteq> CHR ''+''"
    using str_nat_head [of k] by auto
  with False show ?thesis
    using str_nat_head [of k] by (simp add: format_1f_def Let_def k_def)
qed

lemma comment_plus_prefix:
  "(take 1 ((if d > 0 then ''+'' else []) @ format_1f d @ ending) = ''+'') = (d > 0)"
proof (cases "d > 0")
  case True
  then show ?thesis by simp
next
  case False
  obtain h t where ht: "format_1f d = h # t" and "h \<noteq> CHR ''+''"
    using format_1f_head [of d] by (cases "format_1f d") auto
  with False show ?thesis by simp
qed

lemma expected_entry_props:
  "om_value (expected_entry name ending s m) = Some s"
  "market_value (expected_entry name ending s m) = Some m"
  "deviation_percent (expected_entry name ending s m) = Some (spec_deviation name s m)"
  by (simp_all add: expected_entry_def)

lemma expected_entry_prefix:
  "(take 1 (deviation_comment (expected_entry name ending s m)) = ''+'') =
     (spec_deviation name s m > 0)"
  unfolding expected_entry_def
  by (simp only: ComparisonResult.select_convs comment_plus_prefix)

lemma oak_results_value:
  "calculate_comparisons mock_metrics oak_stats maple_stats = Inr oak_results"
  unfolding calculate_comparisons_value
  by (simp add: mock_metrics_def get_mock_om_data_def oak_stats_value maple_stats_value
      truthy_def expected_entry_def spec_deviation_def oak_results_def
      format_1f_def round_half_even_def str_nat.simps digit_char_def Let_def)

text \<open>
  Claim C3, as stated, fails: with a subject whose cap rate is 0 and whose 1-bedroom rent is
  reported as 0, both sides of these two metrics are present and the market averages are
  non-zero, yet the calculator emits neither comparison.
\<close>

theorem comparison_guard_counterexample:
  "spec_emits ''Cap Rate'' zero_rent_metrics oak_stats maple_stats \<and>
   spec_emits ''1BR Rent'' zero_rent_metrics oak_stats maple_stats \<and>
   metric_names (calculate_comparisons zero_rent_metrics oak_stats maple_stats) =
     Inr [''Price per Unit'', ''Price per SqFt'', ''2BR Rent'']"
  unfolding calculate_comparisons_names
  by (simp add: spec_emits_def subject_value_def market_average_def zero_rent_metrics_def
      mock_metrics_def get_mock_om_data_def oak_stats_value maple_stats_value truthy_def)

text \<open>
  Claim C3, amended. The calculator never raises, and for each metric of the fixed set it
  emits a result exactly under the metric's guard: price per unit and price per sqft when
  the market average is strictly positive; cap rate when the market average is present and
  non-zero and the subject's cap rate is non-zero; 1-bedroom and 2-bedroom rent when the
  subject's rent and the market average are both present and non-zero. Otherwise the
  comparison is skipped; a rent comparison is never emitted when the subject lacks the rent.
\<close>

theorem calculate_comparisons_emission:
  "\<exists>rs. calculate_comparisons om c r = Inr rs \<and>
     (''Price per Unit'' \<in> set (map metric_name rs)) = (avg_price_per_unit c > 0) \<and>
     (''Price per SqFt'' \<in> set (map metric_name rs)) = (avg_price_per_sqft c > 0) \<and>
     (''Cap Rate'' \<in> set (map metric_name rs)) =
        (om_cap_rate om \<noteq> 0 \<and> (\<exists>m. avg_cap_rate c = Some m \<and> m \<noteq> 0)) \<and>
     (''1BR Rent'' \<in> set (map metric_name rs)) =
        (\<exists>s u m. one_bed (om_unit_rents om) = Some s \<and> s \<noteq> 0 \<and>
           avg_unit_rents r = Some u \<and> one_bed u = Some m \<and> m \<noteq> 0) \<and>
     (''2BR Rent'' \<in> set (map metric_name rs)) =
        (\<exists>s u m. two_bed (om_unit_rents om) = Some s \<and> s \<noteq> 0 \<and>
           avg_unit_rents r = Some u \<and> two_bed u = Some m \<and> m \<noteq> 0)"
proof -
  obtain ns where ns: "metric_names (calculate_comparisons om c r) = Inr ns"
    using calculate_comparisons_names by blast
  then obtain rs where rs: "calculate_comparisons om c r = Inr rs" and names: "map metric_name rs = ns"
    by (auto simp: metric_names_def split: sum.splits)
  have ns_eq: "ns =
     (if avg_price_per_unit c > 0 then [''Price per Unit''] else []) @
     (if avg_price_per_sqft c > 0 then [''Price per SqFt''] else []) @
     (if truthy (avg_cap_rate c) \<and> om_cap_rate om \<noteq> 0 then [''Cap Rate''] else []) @
     (case avg_unit_rents r of
        None \<Rightarrow> []
      | Some u \<Rightarrow>
          (if truthy (one_bed (om_unit_rents om)) \<and> truthy (one_bed u)
           then [''1BR Rent''] else []) @
          (if truthy (two_bed (om_unit_rents om)) \<and> truthy (two_bed u)
           then [''2BR Rent''] else []))"
    using ns calculate_comparisons_names [of om c r] by simp
  have 1: "(''Price per Unit'' \<in> set ns) = (avg_price_per_unit c > 0)"
    unfolding ns_eq by (cases "avg_unit_rents r") simp_all
  have 2: "(''Price per SqFt'' \<in> set ns) = (avg_price_per_sqft c > 0)"
    unfolding ns_eq by (cases "avg_unit_rents r") simp_all
  have 3: "(''Cap Rate'' \<in> set ns) =
        (om_cap_rate om \<noteq> 0 \<and> (\<exists>m. avg_cap_rate c = Some m \<and> m \<noteq> 0))"
    unfolding ns_eq by (cases "avg_unit_rents r") (auto simp: truthy_iff)
  have 4: "(''1BR Rent'' \<in> set ns) =
        (\<exists>s u m. one_bed (om_unit_rents om) = Some s \<and> s \<noteq> 0 \<and>
           avg_unit_rents r = Some u \<and> one_bed u = Some m \<and> m \<noteq> 0)"
    unfolding ns_eq by (cases "avg_unit_rents r") (auto simp: truthy_iff)
  have 5: "(''2BR Rent'' \<in> set ns) =
        (\<exists>s u m. two_bed (om_unit_rents om) = Some s \<and> s \<noteq> 0 \<and>
           avg_unit_rents r = Some u \<and> two_bed u = Some m \<and> m \<noteq> 0)"
    unfolding ns_eq by (cases "avg_unit_rents r") (auto simp: truthy_iff)
  from rs 1 2 3 4 5 show ?thesis
    unfolding names [symmetric] by blast
qed

lemma comparison_entry_cases:
  assumes "calculate_comparisons om c r = Inr rs" and "res \<in> set rs"
  obtains
    (ppu) "avg_price_per_unit c > 0"
      "res = expected_entry ''Price per Unit'' ''% vs CREXi market''
               (om_price_per_unit om) (avg_price_per_unit c)"
  | (ppsf) "avg_price_per_sqft c > 0"
      "res = expected_entry ''Price per SqFt'' ''% vs CREXi market''
               (om_price_per_sqft om) (avg_price_per_sqft c)"
  | (cap) m where "avg_cap_rate c = Some m" "m \<noteq> 0"
      "res = expected_entry ''Cap Rate'' ''pp vs CREXi market'' (om_cap_rate om) m"
  | (one) u s m where "avg_unit_rents r = Some u" "one_bed (om_unit_rents om) = Some s"
      "one_bed u = Some m" "m \<noteq> 0"
      "res = expected_entry ''1BR Rent'' ''% vs Realtor market'' s m"
  | (two) u s m where "avg_unit_rents r = Some u" "two_bed (om_unit_rents om) = Some s"
      "two_bed u = Some m" "m \<noteq> 0"
      "res = expected_entry ''2BR Rent'' ''% vs Realtor market'' s m"
proof (cases "avg_unit_rents r")
  case None
  with assms show ?thesis
    unfolding calculate_comparisons_value
    by (auto simp: truthy_iff split: if_splits intro: ppu ppsf cap)
next
  case (Some u)
  with assms show ?thesis
    unfolding calculate_comparisons_value
    by (auto simp: truthy_iff split: if_splits intro: ppu ppsf cap one two)
qed

text \<open>
  Claim C4, as stated, fails in its example: for the subject's 285417 against a market
  average of 291304 the formula, and the code, give \<open>-147175/72826\<close>, about -2.02 and more
  than 0.06 away from -1.96; the annotation is \<^verbatim>\<open>-2.0% vs CREXi market\<close>.
\<close>

theorem price_per_unit_example_counterexample:
  "calculate_comparisons mock_metrics oak_stats maple_stats = Inr oak_results \<and>
   om_price_per_unit mock_metrics = 285417 \<and>
   avg_price_per_unit oak_stats = 291304 \<and>
   metric_name (hd oak_results) = ''Price per Unit'' \<and>
   deviation_percent (hd oak_results) = Some (- (147175 / 72826)) \<and>
   \<bar>- (147175 / 72826) - (- (196 / 100))\<bar> > (6 / 100 :: real) \<and>
   deviation_comment (hd oak_results) = ''-2.0% vs CREXi market''"
proof -
  have "om_price_per_unit mock_metrics = 285417"
    by (simp add: mock_metrics_def get_mock_om_data_def)
  moreover have "avg_price_per_unit oak_stats = 291304"
    by (simp add: oak_stats_value)
  moreover have "metric_name (hd oak_results) = ''Price per Unit'' \<and>
      deviation_percent (hd oak_results) = Some (- (147175 / 72826)) \<and>
      deviation_comment (hd oak_results) = ''-2.0% vs CREXi market''"
    by (simp add: oak_results_def)
  moreover have "\<bar>- (147175 / 72826) - (- (196 / 100))\<bar> > (6 / 100 :: real)"
    by simp
  ultimately show ?thesis
    using oak_results_value by blast
qed

text \<open>
  Claim C4, amended. Every emitted result carries the subject's value \<open>s\<close> and the market
  average \<open>m\<close> of its metric and the deviation of the metric's class: \<open>(s - m) / m * 100\<close>
  for the ratio-scale metrics (price per unit, price per sqft, unit rents), where \<open>m\<close> is
  non-zero, and the point difference \<open>s - m\<close> for the cap rate; the annotation starts with
  \<^verbatim>\<open>+\<close> exactly when the deviation is positive. (So 285417 against 291304 yields about
  -2.02, and 5.4 against 5.5 yields -0.1.)
\<close>

theorem comparison_deviation_formula:
  assumes "calculate_comparisons om c r = Inr rs" and "res \<in> set rs"
  shows "\<exists>s m. subject_value (metric_name res) om = Some s \<and>
           market_average (metric_name res) c r = Some m \<and>
           om_value res = Some s \<and> market_value res = Some m \<and>
           deviation_percent res = Some (spec_deviation (metric_name res) s m) \<and>
           (metric_name res = ''Cap Rate'' \<or> m \<noteq> 0) \<and>
           spec_deviation ''Cap Rate'' s m = s - m \<and>
           spec_deviation ''Price per Unit'' s m = (s - m) / m * 100 \<and>
           spec_deviation ''Price per SqFt'' s m = (s - m) / m * 100 \<and>
           spec_deviation ''1BR Rent'' s m = (s - m) / m * 100 \<and>
           spec_deviation ''2BR Rent'' s m = (s - m) / m * 100 \<and>
           (take 1 (deviation_comment res) = ''+'') = (spec_deviation (metric_name res) s m > 0)"
proof -
  have classes: "spec_deviation ''Cap Rate'' s m = s - m \<and>
      spec_deviation ''Price per Unit'' s m = (s - m) / m * 100 \<and>
      spec_deviation ''Price per SqFt'' s m = (s - m) / m * 100 \<and>
      spec_deviation ''1BR Rent'' s m = (s - m) / m * 100 \<and>
      spec_deviation ''2BR Rent'' s m = (s - m) / m * 100" for s m
    by (simp add: spec_deviation_def)
  have entry: ?thesis
    if "res = expected_entry name ending s m" "subject_value name om = Some s"
       "market_average name c r = Some m" "name = ''Cap Rate'' \<or> m \<noteq> 0"
    for name ending s m
  proof -
    have n: "metric_name res = name"
      by (simp add: that(1))
    have v: "om_value res = Some s" "market_value res = Some m"
      "deviation_percent res = Some (spec_deviation name s m)"
      by (simp_all add: that(1) expected_entry_props)
    have p: "(take 1 (deviation_comment res) = ''+'') = (spec_deviation name s m > 0)"
      unfolding that(1) by (rule expected_entry_prefix)
    show ?thesis
      unfolding n using v p that(2,3,4) classes [of s m] by blast
  qed
  from assms show ?thesis
  proof (cases rule: comparison_entry_cases)
    case ppu
    then show ?thesis
      by (intro entry [OF ppu(2)]) (simp_all add: subject_value_def market_average_def)
  next
    case ppsf
    then show ?thesis
      by (intro entry [OF ppsf(2)]) (simp_all add: subject_value_def market_average_def)
  next
    case (cap m)
    then show ?thesis
      by (intro entry [OF cap(3)]) (simp_all add: subject_value_def market_average_def)
  next
    case (one u s m)
    then show ?thesis
      by (intro entry [OF one(5)]) (simp_all add: subject_value_def market_average_def)
  next
    case (two u s m)
    then show ?thesis
      by (intro entry [OF two(5)]) (simp_all add: subject_value_def market_average_def)
  qed
qed

theorem comparison_deviation_formula_witness:
  "calculate_comparisons mock_metrics oak_stats maple_stats = Inr oak_results \<and>
   oak_results ! 0 \<in> set oak_results \<and>
   deviation_percent (oak_results ! 0) = Some (spec_deviation ''Price per Unit'' 285417 291304) \<and>
   - (2021 / 1000) < spec_deviation ''Price per Unit'' 285417 291304 \<and>
   spec_deviation ''Price per Unit'' 285417 291304 < - (2020 / 1000) \<and>
   take 1 (deviation_comment (oak_results ! 0)) = ''-'' \<and>
   deviation_percent (oak_results ! 2) = Some (spec_deviation ''Cap Rate'' (54 / 10) (55 / 10)) \<and>
   spec_deviation ''Cap Rate'' (54 / 10) (55 / 10) = - (1 / 10) \<and>
   take 1 (deviation_comment (oak_results ! 1)) = ''+''"
proof -
  have mem: "oak_results ! 0 \<in> set oak_results"
    by (simp add: oak_results_def)
  show ?thesis
    using comparison_deviation_formula [OF oak_results_value mem] oak_results_value
    by (simp add: oak_results_def spec_deviation_def)
qed

lemma calculate_comparisons_names_guard:
  "metric_names (calculate_comparisons om c r) =
     Inr (filter (\<lambda>name. emission_guard name om c r) fixed_metrics)"
  unfolding calculate_comparisons_names
  by (cases "avg_unit_rents r") (simp_all add: emission_guard_def fixed_metrics_def)

text \<open>
  Claim C5. For every input the calculator returns, and the names of its results are exactly
  the five fixed metrics, in their fixed order price per unit, price per sqft, cap rate,
  1-bedroom rent, 2-bedroom rent, without those whose guard fails: each metric whose guard
  holds is there once, no other metric (no 3-bedroom or 4-bedroom rent) is ever compared,
  none is reordered. The 3-bedroom and 4-bedroom rents of the subject and of the market do
  not influence the result.
\<close>

theorem calculate_comparisons_fixed_order:
  "(\<exists>rs. calculate_comparisons om c r = Inr rs \<and>
      map metric_name rs = filter (\<lambda>name. emission_guard name om c r) fixed_metrics \<and>
      subseq (map metric_name rs) fixed_metrics) \<and>
   fixed_metrics =
     [''Price per Unit'', ''Price per SqFt'', ''Cap Rate'', ''1BR Rent'', ''2BR Rent''] \<and>
   calculate_comparisons
     (om\<lparr>om_unit_rents := (om_unit_rents om)\<lparr>three_bed := a3, four_bed := a4\<rparr>\<rparr>) c
     (r\<lparr>avg_unit_rents := map_option (\<lambda>u. u\<lparr>three_bed := b3, four_bed := b4\<rparr>) (avg_unit_rents r)\<rparr>)
   = calculate_comparisons om c r"
proof (intro conjI)
  obtain rs where rs: "calculate_comparisons om c r = Inr rs"
    and names: "map metric_name rs = filter (\<lambda>name. emission_guard name om c r) fixed_metrics"
    using calculate_comparisons_names_guard [of om c r]
    by (auto simp: metric_names_def split: sum.splits)
  have "subseq (map metric_name rs) fixed_metrics"
    unfolding names by (rule subseq_filter_left)
  with rs names
  show "\<exists>rs. calculate_comparisons om c r = Inr rs \<and>
      map metric_name rs = filter (\<lambda>name. emission_guard name om c r) fixed_metrics \<and>
      subseq (map metric_name rs) fixed_metrics"
    by blast
next
  show "fixed_metrics =
     [''Price per Unit'', ''Price per SqFt'', ''Cap Rate'', ''1BR Rent'', ''2BR Rent'']"
    by (simp add: fixed_metrics_def)
next
  show "calculate_comparisons
     (om\<lparr>om_unit_rents := (om_unit_rents om)\<lparr>three_bed := a3, four_bed := a4\<rparr>\<rparr>) c
     (r\<lparr>avg_unit_rents := map_option (\<lambda>u. u\<lparr>three_bed := b3, four_bed := b4\<rparr>) (avg_unit_rents r)\<rparr>)
   = calculate_comparisons om c r"
    unfolding calculate_comparisons_value
    by (cases "avg_unit_rents r") simp_all
qed

theorem calculate_comparisons_fixed_order_witness:
  "metric_names (calculate_comparisons mock_metrics oak_stats maple_stats) =
     Inr [''Price per Unit'', ''Price per SqFt'', ''Cap Rate'', ''1BR Rent'', ''2BR Rent''] \<and>
   metric_names (calculate_comparisons zero_rent_metrics oak_stats maple_stats) =
     Inr [''Price per Unit'', ''Price per SqFt'', ''2BR Rent''] \<and>
   metric_names (calculate_comparisons mock_metrics maple_stats oak_stats) = Inr []"
proof -
  have g: "filter (\<lambda>name. emission_guard name mock_metrics oak_stats maple_stats) fixed_metrics =
      [''Price per Unit'', ''Price per SqFt'', ''Cap Rate'', ''1BR Rent'', ''2BR Rent'']"
    "filter (\<lambda>name. emission_guard name zero_rent_metrics oak_stats maple_stats) fixed_metrics =
      [''Price per Unit'', ''Price per SqFt'', ''2BR Rent'']"
    "filter (\<lambda>name. emission_guard name mock_metrics maple_stats oak_stats) fixed_metrics = []"
    by (simp_all add: emission_guard_def fixed_metrics_def oak_stats_value maple_stats_value
        mock_metrics_def zero_rent_metrics_def get_mock_om_data_def truthy_def)
  obtain rs1 where "calculate_comparisons mock_metrics oak_stats maple_stats = Inr rs1"
    "map metric_name rs1 =
       filter (\<lambda>name. emission_guard name mock_metrics oak_stats maple_stats) fixed_metrics"
    using calculate_comparisons_fixed_order [of mock_metrics oak_stats maple_stats] by blast
  then have 1: "metric_names (calculate_comparisons mock_metrics oak_stats maple_stats) =
      Inr [''Price per Unit'', ''Price per SqFt'', ''Cap Rate'', ''1BR Rent'', ''2BR Rent'']"
    by (simp add: metric_names_def g)
  obtain rs2 where "calculate_comparisons zero_rent_metrics oak_stats maple_stats = Inr rs2"
    "map metric_name rs2 =
       filter (\<lambda>name. emission_guard name zero_rent_metrics oak_stats maple_stats) fixed_metrics"
    using calculate_comparisons_fixed_order [of zero_rent_metrics oak_stats maple_stats] by blast
  then have 2: "metric_names (calculate_comparisons zero_rent_metrics oak_stats maple_stats) =
      Inr [''Price per Unit'', ''Price per SqFt'', ''2BR Rent'']"
    by (simp add: metric_names_def g)
  obtain rs3 where "calculate_comparisons mock_metrics maple_stats oak_stats = Inr rs3"
    "map metric_name rs3 =
       filter (\<lambda>name. emission_guard name mock_metrics maple_stats oak_stats) fixed_metrics"
    using calculate_comparisons_fixed_order [of mock_metrics maple_stats oak_stats] by blast
  then have 3: "metric_names (calculate_comparisons mock_metrics maple_stats oak_stats) = Inr []"
    by (simp add: metric_names_def g)
  from 1 2 3 show ?thesis
    by blast
qed

section \<open>Properties of the input normalizer and of the primary operation\<close>

lemma bind_exn_Inr_iff: "bind_exn m f = Inr y \<longleftrightarrow> (\<exists>x. m = Inr x \<and> f x = Inr y)"
  by (cases m) (simp_all add: bind_exn_def)

lemma float_field_absent: "row key = None \<Longrightarrow> float_field pf row key = Inr 0"
  by (simp add: float_field_def row_get_def)

lemma rent_field_absent: "row key = None \<Longrightarrow> rent_field pf row key = Inr None"
  by (simp add: rent_field_def row_get_def)

text \<open>What a successful parse says about the record: each field is the value parsed for it.\<close>

lemma parse_row_Inr:
  assumes "parse_row pf row = Inr d"
  shows "float_field pf row ''cap_rate'' = Inr (summary_cap_rate (property_summary d))"
    and "\<exists>x. float_field pf row ''rentable_sqft'' = Inr x \<and> rentable_sqft (property_summary d) = py_int x"
    and "float_field pf row ''avg_sqft_per_unit'' = Inr (avg_sqft_per_unit (property_summary d))"
    and "float_field pf row ''asking_price'' = Inr (asking_price (property_summary d))"
    and "float_field pf row ''lot_size_acres'' = Inr (lot_size_acres (property_summary d))"
    and "\<exists>x. float_field pf row ''total_units'' = Inr x \<and> total_units (property_summary d) = py_int x"
    and "rent_field pf row ''one_bed_rent'' = Inr (one_bed (data_unit_rents d))"
    and "rent_field pf row ''two_bed_rent'' = Inr (two_bed (data_unit_rents d))"
    and "rent_field pf row ''three_bed_rent'' = Inr (three_bed (data_unit_rents d))"
    and "rent_field pf row ''four_bed_rent'' = Inr (four_bed (data_unit_rents d))"
    and "float_field pf row ''noi'' = Inr (fin_noi (financials d))"
    and "float_field pf row ''cap_rate'' = Inr (fin_cap_rate (financials d))"
    and "float_field pf row ''price_per_sqft'' = Inr (fin_price_per_sqft (financials d))"
    and "float_field pf row ''price_per_unit'' = Inr (fin_price_per_unit (financials d))"
    and "float_field pf row ''price_per_acre'' = Inr (fin_price_per_acre (financials d))"
    and "float_field pf row ''vacancy_rate'' = Inr (vacancy_rate (vacancy_egi d))"
    and "float_field pf row ''gross_potential_rent'' = Inr (gross_potential_rent (vacancy_egi d))"
    and "effective_gross_income (vacancy_egi d) =
           gross_potential_rent (vacancy_egi d) * (1 - vacancy_rate (vacancy_egi d))"
  using assms unfolding parse_row_def bind_exn_Inr_iff by auto

lemma parse_csv_om_data_Inr:
  "parse_csv_om_data pf fr text = Inr d \<longleftrightarrow> (\<exists>row. fr text = Inr row \<and> parse_row pf row = Inr d)"
  by (cases "fr text") (auto simp: parse_csv_om_data_def bind_exn_simps split: sum.splits)

lemma parse_csv_om_data_Inl:
  "parse_csv_om_data pf fr text = Inl e \<Longrightarrow> \<exists>x. e = HTTPException 400 (ErrorParsingCSV x)"
  by (auto simp: parse_csv_om_data_def split: sum.splits)

lemma parse_example_row: "parse_row example_float example_row = Inr get_mock_om_data"
  by (simp add: parse_row_def float_field_def rent_field_def row_get_def example_row_def
      example_float_def bind_exn_simps lower_char_def py_int_def get_mock_om_data_def)

lemma parse_empty_row: "parse_row pf Map.empty = Inr empty_row_om"
  by (simp add: parse_row_def float_field_def rent_field_def row_get_def
      bind_exn_simps py_int_def empty_row_om_def)

lemma parse_bad_number_row: "parse_row example_float bad_number_row = Inl ValueError"
  by (simp add: parse_row_def float_field_def rent_field_def row_get_def
      bind_exn_simps bad_number_row_def example_float_def)

text \<open>
  Claim C6. Every record the normalizer produces, parsed from an uploaded row or the
  built-in default, satisfies effective gross income = gross potential rent * (1 - vacancy
  rate); the example row parses to the built-in record, whose effective gross income is
  2162000.
\<close>

theorem normalizer_effective_gross_income:
  "(parse_csv_om_data pf first_row csv_content = Inr d \<longrightarrow>
      effective_gross_income (vacancy_egi d) =
        gross_potential_rent (vacancy_egi d) * (1 - vacancy_rate (vacancy_egi d))) \<and>
   effective_gross_income (vacancy_egi get_mock_om_data) =
     gross_potential_rent (vacancy_egi get_mock_om_data) *
       (1 - vacancy_rate (vacancy_egi get_mock_om_data))"
proof
  show "parse_csv_om_data pf first_row csv_content = Inr d \<longrightarrow>
      effective_gross_income (vacancy_egi d) =
        gross_potential_rent (vacancy_egi d) * (1 - vacancy_rate (vacancy_egi d))"
    using parse_row_Inr(18) by (auto simp: parse_csv_om_data_Inr)
next
  show "effective_gross_income (vacancy_egi get_mock_om_data) =
     gross_potential_rent (vacancy_egi get_mock_om_data) *
       (1 - vacancy_rate (vacancy_egi get_mock_om_data))"
    by (simp add: get_mock_om_data_def)
qed

theorem normalizer_effective_gross_income_witness:
  "parse_csv_om_data example_float (\<lambda>csv_content. Inr example_row) ''address,cap_rate'' =
     Inr get_mock_om_data \<and>
   gross_potential_rent (vacancy_egi get_mock_om_data) = 2300000 \<and>
   vacancy_rate (vacancy_egi get_mock_om_data) = 6 / 100 \<and>
   effective_gross_income (vacancy_egi get_mock_om_data) = 2300000 * (1 - 6 / 100) \<and>
   effective_gross_income (vacancy_egi get_mock_om_data) = 2162000"
proof -
  have p: "parse_csv_om_data example_float (\<lambda>csv_content. Inr example_row) ''address,cap_rate'' =
      Inr get_mock_om_data"
    by (simp add: parse_csv_om_data_def bind_exn_simps parse_example_row)
  have v: "gross_potential_rent (vacancy_egi get_mock_om_data) = 2300000"
    "vacancy_rate (vacancy_egi get_mock_om_data) = 6 / 100"
    by (simp_all add: get_mock_om_data_def)
  from normalizer_effective_gross_income
    [of example_float "\<lambda>csv_content. Inr example_row" "''address,cap_rate''" get_mock_om_data] p
  have "effective_gross_income (vacancy_egi get_mock_om_data) =
      gross_potential_rent (vacancy_egi get_mock_om_data) *
        (1 - vacancy_rate (vacancy_egi get_mock_om_data))"
    by blast
  with p v show ?thesis by simp
qed

text \<open>
  Claim C7, on the code: when the uploaded text does not parse, \<^verbatim>\<open>parse_csv_om_data\<close> raises
  an \<^verbatim>\<open>HTTPException\<close> with status 400, and \<^verbatim>\<open>analyze_om\<close> catches it and reports an
  \<^verbatim>\<open>HTTPException\<close> with status 500 whose detail is "Analysis failed: ...".
\<close>

theorem analyze_om_parse_failure_status:
  assumes "parse_csv_om_data pf first_row csv_text = Inl e"
  shows "status_code (parse_csv_om_data pf first_row csv_text) = Some 400 \<and>
         analyze_om pf float_sum true_div first_row market filters (Some (Utf8Text csv_text)) =
           Inl (HTTPException 500 (AnalysisFailed e)) \<and>
         status_code
           (analyze_om pf float_sum true_div first_row market filters (Some (Utf8Text csv_text))) =
           Some 500"
proof -
  obtain x where "e = HTTPException 400 (ErrorParsingCSV x)"
    using parse_csv_om_data_Inl [OF assms] by blast
  with assms show ?thesis
    by (simp add: analyze_om_def analyze_body_def bind_exn_simps)
qed

theorem analyze_om_parse_failure_status_witness:
  "parse_csv_om_data example_float (\<lambda>csv_text. Inr bad_number_row) ''cap_rate'' =
     Inl (HTTPException 400 (ErrorParsingCSV ValueError)) \<and>
   analyze_om example_float double_sum double_div (\<lambda>csv_text. Inr bad_number_row)
       (\<lambda>geography. ([], [])) no_filters (Some (Utf8Text ''cap_rate'')) =
     Inl (HTTPException 500 (AnalysisFailed (HTTPException 400 (ErrorParsingCSV ValueError))))"
proof -
  have p: "parse_csv_om_data example_float (\<lambda>csv_text. Inr bad_number_row) ''cap_rate'' =
      Inl (HTTPException 400 (ErrorParsingCSV ValueError))"
    by (simp add: parse_csv_om_data_def bind_exn_simps parse_bad_number_row)
  from analyze_om_parse_failure_status
    [OF p, of double_sum double_div "\<lambda>geography. ([], [])" no_filters] p
  show ?thesis
    by simp
qed

text \<open>
  Claim C8, as stated, fails for the four bedroom rents: a row without these columns parses
  to a record whose rents are all undefined, not 0.
\<close>

theorem missing_rent_counterexample:
  "parse_csv_om_data example_float (\<lambda>csv_content. Inr Map.empty) ''address'' = Inr empty_row_om \<and>
   data_unit_rents empty_row_om =
     \<lparr>one_bed = None, two_bed = None, three_bed = None, four_bed = None\<rparr> \<and>
   one_bed (data_unit_rents empty_row_om) \<noteq> Some 0"
  by (simp add: parse_csv_om_data_def bind_exn_simps parse_empty_row empty_row_om_def)

text \<open>
  Claim C8, amended. When an uploaded row parses, each named numeric field other than the
  bedroom rents whose column is absent from the row has the value 0 in the record, and each
  bedroom rent whose column is absent is undefined.
\<close>

theorem missing_fields_parse:
  assumes "first_row csv_content = Inr row"
    and "parse_csv_om_data pf first_row csv_content = Inr d"
  shows "(row ''cap_rate'' = None \<longrightarrow>
            summary_cap_rate (property_summary d) = 0 \<and> fin_cap_rate (financials d) = 0) \<and>
         (row ''rentable_sqft'' = None \<longrightarrow> rentable_sqft (property_summary d) = 0) \<and>
         (row ''avg_sqft_per_unit'' = None \<longrightarrow> avg_sqft_per_unit (property_summary d) = 0) \<and>
         (row ''asking_price'' = None \<longrightarrow> asking_price (property_summary d) = 0) \<and>
         (row ''lot_size_acres'' = None \<longrightarrow> lot_size_acres (property_summary d) = 0) \<and>
         (row ''total_units'' = None \<longrightarrow> total_units (property_summary d) = 0) \<and>
         (row ''noi'' = None \<longrightarrow> fin_noi (financials d) = 0) \<and>
         (row ''price_per_sqft'' = None \<longrightarrow> fin_price_per_sqft (financials d) = 0) \<and>
         (row ''price_per_unit'' = None \<longrightarrow> fin_price_per_unit (financials d) = 0) \<and>
         (row ''price_per_acre'' = None \<longrightarrow> fin_price_per_acre (financials d) = 0) \<and>
         (row ''vacancy_rate'' = None \<longrightarrow> vacancy_rate (vacancy_egi d) = 0) \<and>
         (row ''gross_potential_rent'' = None \<longrightarrow> gross_potential_rent (vacancy_egi d) = 0) \<and>
         (row ''one_bed_rent'' = None \<longrightarrow> one_bed (data_unit_rents d) = None) \<and>
         (row ''two_bed_rent'' = None \<longrightarrow> two_bed (data_unit_rents d) = None) \<and>
         (row ''three_bed_rent'' = None \<longrightarrow> three_bed (data_unit_rents d) = None) \<and>
         (row ''four_bed_rent'' = None \<longrightarrow> four_bed (data_unit_rents d) = None)"
proof -
  from assms have p: "parse_row pf row = Inr d"
    by (auto simp: parse_csv_om_data_Inr)
  note f = parse_row_Inr [OF p]
  have 1: "row ''cap_rate'' = None \<longrightarrow>
      summary_cap_rate (property_summary d) = 0 \<and> fin_cap_rate (financials d) = 0"
    using f(1) f(12) float_field_absent [of row "''cap_rate''" pf] by auto
  have 2: "row ''rentable_sqft'' = None \<longrightarrow> rentable_sqft (property_summary d) = 0"
    using f(2) float_field_absent [of row "''rentable_sqft''" pf] by (auto simp: py_int_def)
  have 3: "row ''avg_sqft_per_unit'' = None \<longrightarrow> avg_sqft_per_unit (property_summary d) = 0"
    using f(3) float_field_absent [of row "''avg_sqft_per_unit''" pf] by auto
  have 4: "row ''asking_price'' = None \<longrightarrow> asking_price (property_summary d) = 0"
    using f(4) float_field_absent [of row "''asking_price''" pf] by auto
  have 5: "row ''lot_size_acres'' = None \<longrightarrow> lot_size_acres (property_summary d) = 0"
    using f(5) float_field_absent [of row "''lot_size_acres''" pf] by auto
  have 6: "row ''total_units'' = None \<longrightarrow> total_units (property_summary d) = 0"
    using f(6) float_field_absent [of row "''total_units''" pf] by (auto simp: py_int_def)
  have 7: "row ''noi'' = None \<longrightarrow> fin_noi (financials d) = 0"
    using f(11) float_field_absent [of row "''noi''" pf] by auto
  have 8: "row ''price_per_sqft'' = None \<longrightarrow> fin_price_per_sqft (financials d) = 0"
    using f(13) float_field_absent [of row "''price_per_sqft''" pf] by auto
  have 9: "row ''price_per_unit'' = None \<longrightarrow> fin_price_per_unit (financials d) = 0"
    using f(14) float_field_absent [of row "''price_per_unit''" pf] by auto
  have 10: "row ''price_per_acre'' = None \<longrightarrow> fin_price_per_acre (financials d) = 0"
    using f(15) float_field_absent [of row "''price_per_acre''" pf] by auto
  have 11: "row ''vacancy_rate'' = None \<longrightarrow> vacancy_rate (vacancy_egi d) = 0"
    using f(16) float_field_absent [of row "''vacancy_rate''" pf] by auto
  have 12: "row ''gross_potential_rent'' = None \<longrightarrow> gross_potential_rent (vacancy_egi d) = 0"
    using f(17) float_field_absent [of row "''gross_potential_rent''" pf] by auto
  have 13: "row ''one_bed_rent'' = None \<longrightarrow> one_bed (data_unit_rents d) = None"
    using f(7) rent_field_absent [of row "''one_bed_rent''" pf] by auto
  have 14: "row ''two_bed_rent'' = None \<longrightarrow> two_bed (data_unit_rents d) = None"
    using f(8) rent_field_absent [of row "''two_bed_rent''" pf] by auto
  have 15: "row ''three_bed_rent'' = None \<longrightarrow> three_bed (data_unit_rents d) = None"
    using f(9) rent_field_absent [of row "''three_bed_rent''" pf] by auto
  have 16: "row ''four_bed_rent'' = None \<longrightarrow> four_bed (data_unit_rents d) = None"
    using f(10) rent_field_absent [of row "''four_bed_rent''" pf] by auto
  from 1 2 3 4 5 6 7 8 9 10 11 12 13 14 15 16 show ?thesis
    by blast
qed

theorem missing_fields_parse_witness:
  "parse_csv_om_data example_float (\<lambda>csv_content. Inr [''address'' \<mapsto> Some ''1 Elm St, Ocala, FL''])
     ''address'' =
     Inr (empty_row_om\<lparr>property_summary :=
            (property_summary empty_row_om)\<lparr>summary_address := Some ''1 Elm St, Ocala, FL''\<rparr>\<rparr>) \<and>
   fin_noi (financials empty_row_om) = 0 \<and>
   vacancy_rate (vacancy_egi empty_row_om) = 0 \<and>
   total_units (property_summary empty_row_om) = 0 \<and>
   three_bed (data_unit_rents empty_row_om) = None"
proof -
  let ?row = "[''address'' \<mapsto> Some ''1 Elm St, Ocala, FL'']"
  let ?d = "empty_row_om\<lparr>property_summary :=
            (property_summary empty_row_om)\<lparr>summary_address := Some ''1 Elm St, Ocala, FL''\<rparr>\<rparr>"
  have r: "(\<lambda>csv_content. Inr ?row) ''address'' = (Inr ?row :: exn + csv_row)"
    by simp
  have "parse_row example_float ?row = Inr ?d"
    by (simp add: parse_row_def float_field_def rent_field_def row_get_def
        bind_exn_simps py_int_def empty_row_om_def)
  then have p: "parse_csv_om_data example_float (\<lambda>csv_content. Inr ?row) ''address'' = Inr ?d"
    by (simp add: parse_csv_om_data_def bind_exn_simps)
  from missing_fields_parse [OF r p] p show ?thesis
    by (simp add: empty_row_om_def)
qed

subsection \<open>End to end on the built-in data\<close>

lemma extract_geography_Some: "\<exists>g. extract_geography_from_address (Some a) = Inr g"
  by (simp add: extract_geography_from_address_def Let_def)

text \<open>
  With no upload, an empty answer of the data store and no bound set, the response compares
  the built-in subject with the statistics of the built-in comparables, and lists exactly
  the fixed metrics whose guard holds, in order.
\<close>

lemma analyze_om_default_comparisons:
  "\<exists>response.
     analyze_om pf float_sum true_div first_row (\<lambda>geography. ([], [])) no_filters None =
       Inr response \<and>
     resp_crexi_comps response = calculate_comp_stats float_sum true_div get_mock_crexi_comps \<and>
     resp_realtor_comps response = calculate_comp_stats float_sum true_div get_mock_realtor_comps \<and>
     map metric_name (resp_comparisons response) =
       filter (\<lambda>name. emission_guard name mock_metrics
                 (resp_crexi_comps response) (resp_realtor_comps response)) fixed_metrics"
proof -
  let ?crexi = "calculate_comp_stats float_sum true_div get_mock_crexi_comps"
  let ?realtor = "calculate_comp_stats float_sum true_div get_mock_realtor_comps"
  obtain g where g: "extract_geography_from_address
      (summary_address (property_summary get_mock_om_data)) = Inr g"
    using extract_geography_Some [of "''123 Main St, Tampa, FL''"]
    by (auto simp: get_mock_om_data_def)
  obtain rs where rs: "calculate_comparisons mock_metrics ?crexi ?realtor = Inr rs"
    and names: "map metric_name rs =
      filter (\<lambda>name. emission_guard name mock_metrics ?crexi ?realtor) fixed_metrics"
    using calculate_comparisons_names_guard [of mock_metrics ?crexi ?realtor]
    by (auto simp: metric_names_def split: sum.splits)
  have unfiltered: "apply_filters comps no_filters = comps" for comps
    by (simp add: apply_filters_filter skipped_no_filters)
  have "analyze_body pf float_sum true_div first_row (\<lambda>geography. ([], [])) no_filters None =
      Inr \<lparr>resp_property_summary = property_summary get_mock_om_data,
           resp_unit_rents = data_unit_rents get_mock_om_data,
           resp_financials = financials get_mock_om_data,
           resp_vacancy_egi = vacancy_egi get_mock_om_data,
           resp_crexi_comps = ?crexi,
           resp_realtor_comps = ?realtor,
           resp_comparisons = rs,
           raw_crexi_comps = get_mock_crexi_comps,
           raw_realtor_comps = get_mock_realtor_comps\<rparr>"
    unfolding analyze_body_def
    using rs by (simp add: bind_exn_simps g Let_def unfiltered mock_metrics_def)
  with names show ?thesis
    by (simp add: analyze_om_def)
qed

end
